theory Spec2Isabelle
  imports Main "HOL-Library.Word"
begin

section \<open>JavaScript values as the front end sees them\<close>

text \<open>
  The program is \<^verbatim>\<open>src/frontend/app.js\<close>. Everything it receives from the
  server arrives through \<^verbatim>\<open>res.json()\<close>, so a payload is a JSON value. A
  property read may also give \<^verbatim>\<open>undefined\<close>: a JavaScript value is a
  \<open>json option\<close>, with \<open>None\<close> for \<^verbatim>\<open>undefined\<close>.

  The model covers these values:
  \<^item> Strings are byte strings (UTF-8).
  \<^item> Numbers are the integers from \<open>- 2 ^ 53\<close> to \<open>2 ^ 53 - 1\<close>, a 54-bit word read
    as signed. \<^verbatim>\<open>JSON.parse\<close> reads these exactly and \<^verbatim>\<open>String\<close> prints
    them digit by digit; fractions and larger numbers are outside the model.
  \<^item> An object is given by its properties among the names the program reads, which
    \<open>key\<close> lists, each at most once. So no object of the model has an own property
    \<^verbatim>\<open>length\<close>, \<^verbatim>\<open>toString\<close>, \<^verbatim>\<open>replace\<close>, \<^verbatim>\<open>map\<close> or
    \<^verbatim>\<open>forEach\<close>.
\<close>

datatype key =
    Segments | Scores | Rewrites | Turns | OverallSummary
  | Text | Start | End
  | DirectAnswer10s | SpecificExample | QuantifiedImpact | Tradeoffs | CrispTakeaway
  | Met | Note
  | FillerCount | LongPauses | TrailingSentences
  | PaceWpm | PaceRating | PaceFeedback
  | RelevanceToRole | QuestionType | ActionableFeedback
  | Tight45s | Expanded2min

datatype json =
    JNull
  | JBool bool
  | JNum "54 word"
  | JStr string
  | JArr "json list"
  | JObj "(key \<times> json) list"

type_synonym jsval = "json option"

datatype js_error = TypeError

text \<open>Truthiness, as \<^verbatim>\<open>if (x)\<close>, \<^verbatim>\<open>x && y\<close> and \<^verbatim>\<open>x || y\<close> test it.\<close>

fun js_truthy :: "json \<Rightarrow> bool" where
  "js_truthy JNull = False"
| "js_truthy (JBool b) = b"
| "js_truthy (JNum n) = (n \<noteq> 0)"
| "js_truthy (JStr s) = (s \<noteq> [])"
| "js_truthy (JArr xs) = True"
| "js_truthy (JObj kv) = True"

fun truthy :: "jsval \<Rightarrow> bool" where
  "truthy None = False"
| "truthy (Some v) = js_truthy v"

text \<open>\<^verbatim>\<open>x == null\<close>: the value is \<^verbatim>\<open>null\<close> or \<^verbatim>\<open>undefined\<close>; \<^verbatim>\<open>x != null\<close> is
  its negation.\<close>

fun nullish :: "jsval \<Rightarrow> bool" where
  "nullish None = True"
| "nullish (Some JNull) = True"
| "nullish (Some v) = False"

definition non_null :: "jsval \<Rightarrow> bool" where
  "non_null x = (\<not> nullish x)"

text \<open>
  \<^verbatim>\<open>v.k\<close> for a key \<open>k\<close> and a receiver \<open>v\<close> that is not \<^verbatim>\<open>null\<close>
  (reading a property of \<^verbatim>\<open>null\<close> throws; the callers below test for it
  first). An object gives its own property. None of the keys names a property that
  strings, arrays, numbers or booleans have, so every other read gives
  \<^verbatim>\<open>undefined\<close>.
\<close>

fun get_prop :: "json \<Rightarrow> key \<Rightarrow> jsval" where
  "get_prop (JObj kv) k = map_of kv k"
| "get_prop v k = None"

text \<open>
  \<^verbatim>\<open>v.length > 0\<close> for a truthy \<open>v\<close>: arrays and strings have a length, no other
  value of the model does, and \<^verbatim>\<open>undefined > 0\<close> is false.
\<close>

fun length_positive :: "json \<Rightarrow> bool" where
  "length_positive (JArr xs) = (xs \<noteq> [])"
| "length_positive (JStr s) = (s \<noteq> [])"
| "length_positive v = False"

text \<open>
  \<^verbatim>\<open>String(x)\<close>, as template literals, \<^verbatim>\<open>join\<close> and \<^verbatim>\<open>textContent\<close>
  apply it. It throws on no value of the model: an object has no own
  \<^verbatim>\<open>toString\<close>, so it prints as \<^verbatim>\<open>[object Object]\<close>.
\<close>

definition digit_char :: "nat \<Rightarrow> char" where
  "digit_char d = ''0123456789'' ! (d mod 10)"

function nat_to_string :: "nat \<Rightarrow> string" where
  "nat_to_string n =
     (if n < 10 then [digit_char n] else nat_to_string (n div 10) @ [digit_char (n mod 10)])"
  by pat_completeness auto
termination
  by (relation "measure id") auto

declare nat_to_string.simps [simp del]

definition int_to_string :: "int \<Rightarrow> string" where
  "int_to_string n = (if n < 0 then CHR ''-'' # nat_to_string (nat (- n)) else nat_to_string (nat n))"

fun join_with :: "string \<Rightarrow> string list \<Rightarrow> string" where
  "join_with sep [] = []"
| "join_with sep [x] = x"
| "join_with sep (x # y # ys) = x @ sep @ join_with sep (y # ys)"

fun js_to_string :: "json \<Rightarrow> string" where
  "js_to_string JNull = ''null''"
| "js_to_string (JBool b) = (if b then ''true'' else ''false'')"
| "js_to_string (JNum n) = int_to_string (sint n)"
| "js_to_string (JStr s) = s"
| "js_to_string (JArr xs) =
     join_with '','' (map (\<lambda>x. if x = JNull then [] else js_to_string x) xs)"
| "js_to_string (JObj kv) = ''[object Object]''"

fun to_string :: "jsval \<Rightarrow> string" where
  "to_string None = ''undefined''"
| "to_string (Some v) = js_to_string v"

text \<open>The em dash of the templates, in UTF-8.\<close>

definition em_dash :: string where
  "em_dash = [CHR 0xE2, CHR 0x80, CHR 0x94]"

section \<open>escapeHtml\<close>

text \<open>
  \<^verbatim>\<open>
  function escapeHtml(s) {
    if (!s) return '';
    const div = document.createElement('div');
    div.textContent = s;
    return div.innerHTML;
  }
  \<close>
  The guard is the repository's. What \<^verbatim>\<open>div.textContent = s\<close> followed by
  \<^verbatim>\<open>div.innerHTML\<close> gives is the browser's doing.
\<close>

text \<open>
  Modelled from the spec: the browser's \<^verbatim>\<open>textContent\<close> and
  \<^verbatim>\<open>innerHTML\<close>, which the repository calls and does not contain. The
  specification leaves HTML rendering to an external collaborator and does not word
  the escaping, so \<open>escape_text\<close> follows the HTML standard: setting
  \<^verbatim>\<open>textContent\<close> makes the string the single text node of the element, and
  serialising a text node replaces \<^verbatim>\<open>&\<close>, the no-break space U+00A0 (bytes C2
  A0), \<^verbatim>\<open><\<close> and \<^verbatim>\<open>>\<close> and copies every other character.
\<close>

definition escape_char :: "char \<Rightarrow> string" where
  "escape_char c =
     (if c = CHR ''&'' then ''&amp;''
      else if c = CHR ''<'' then ''&lt;''
      else if c = CHR ''>'' then ''&gt;''
      else [c])"

fun escape_text :: "string \<Rightarrow> string" where
  "escape_text [] = []"
| "escape_text [c] = escape_char c"
| "escape_text (c # d # cs) =
     (if c = CHR 0xC2 \<and> d = CHR 0xA0 then ''&nbsp;'' @ escape_text cs
      else escape_char c @ escape_text (d # cs))"

definition escapeHtml :: "jsval \<Rightarrow> string" where
  "escapeHtml s = (if \<not> truthy s then [] else escape_text (to_string s))"

section \<open>renderTurnScore\<close>

text \<open>
  The three local helpers of \<^verbatim>\<open>renderTurnScore\<close>:
  \<^verbatim>\<open>
  const met = (o) => (o && typeof o.met === 'boolean' ? o.met : null);
  const note = (o) => (o && o.note ? o.note : '');
  const badge = (m) => {
    if (m === null) return '<span class="badge">-</span>';     // an em dash
    return m ? '<span class="badge yes">Y</span>' : '<span class="badge no">N</span>';
  };
  \<close>
\<close>

definition met_of :: "jsval \<Rightarrow> jsval" where
  "met_of obj =
     (case obj of
        None \<Rightarrow> Some JNull
      | Some v \<Rightarrow>
          if js_truthy v
          then (case get_prop v Met of Some (JBool b) \<Rightarrow> Some (JBool b) | _ \<Rightarrow> Some JNull)
          else Some JNull)"

definition note_of :: "jsval \<Rightarrow> jsval" where
  "note_of obj =
     (case obj of
        None \<Rightarrow> Some (JStr [])
      | Some v \<Rightarrow>
          if js_truthy v \<and> truthy (get_prop v Note) then get_prop v Note else Some (JStr []))"

definition badge :: "jsval \<Rightarrow> string" where
  \<open>badge m =
     (if m = Some JNull then ''<span class="badge">'' @ em_dash @ ''</span>''
      else if truthy m then ''<span class="badge yes">Y</span>''
      else ''<span class="badge no">N</span>'')\<close>

text \<open>The \<^verbatim>\<open>items\<close> array: label, \<^verbatim>\<open>met\<close> and \<^verbatim>\<open>note\<close> of the five criteria.\<close>

definition items :: "json \<Rightarrow> (string \<times> jsval \<times> jsval) list" where
  "items t =
     [(''Direct answer (10s)'', met_of (get_prop t DirectAnswer10s), note_of (get_prop t DirectAnswer10s)),
      (''Specific example'', met_of (get_prop t SpecificExample), note_of (get_prop t SpecificExample)),
      (''Quantified impact'', met_of (get_prop t QuantifiedImpact), note_of (get_prop t QuantifiedImpact)),
      (''Tradeoffs'', met_of (get_prop t Tradeoffs), note_of (get_prop t Tradeoffs)),
      (''Crisp takeaway'', met_of (get_prop t CrispTakeaway), note_of (get_prop t CrispTakeaway))]"

text \<open>The body of \<^verbatim>\<open>items.forEach(([label, m, n]) => ...)\<close>.\<close>

fun rubric_item :: "string \<times> jsval \<times> jsval \<Rightarrow> string" where
  \<open>rubric_item (label, m, n) =
     ''<div class="rubric-item">'' @ badge m @ '' '' @ label
       @ (if truthy n then '': '' @ escapeHtml n else []) @ ''</div>''\<close>

text \<open>\<^verbatim>\<open>x ?? d\<close> inside a template literal, and \<^verbatim>\<open>x || d\<close>.\<close>

definition coalesce :: "jsval \<Rightarrow> string \<Rightarrow> string" where
  "coalesce x d = (if nullish x then d else to_string x)"

definition js_or :: "jsval \<Rightarrow> string \<Rightarrow> jsval" where
  "js_or x d = (if truthy x then x else Some (JStr d))"

text \<open>
  The statements of \<^verbatim>\<open>renderTurnScore(t)\<close> that append to \<^verbatim>\<open>html\<close>, in
  their order (lines 253 to 272), one definition for each:
  \<^verbatim>\<open>
  let html = `<div class="turn"><div class="turn-text">${escapeHtml(t.text || '')}</div>`;
  html += `<div class="rubric">`;
  items.forEach(([label, m, n]) => { html += ... });
  html += `<div class="rubric-item">Filler count: ${t.filler_count ?? '-'}</div>`;
  html += `<div class="rubric-item">Long pauses: ${t.long_pauses ?? '-'}</div>`;
  html += `<div class="rubric-item">Trailing/ramble: ${badge(t.trailing_sentences)}</div>`;
  if (t.pace_wpm != null) { ... }
  if (t.relevance_to_role && (t.relevance_to_role.met != null || t.relevance_to_role.note)) { ... }
  html += `<div class="rubric-item">Question type: ${escapeHtml(t.question_type || '-')}</div>`;
  if (t.actionable_feedback) { ... }
  html += '</div></div>';
  \<close>
  (the three dashes are em dashes).
\<close>

definition turn_open :: "json \<Rightarrow> string" where
  \<open>turn_open t =
     ''<div class="turn"><div class="turn-text">'' @ escapeHtml (js_or (get_prop t Text) [])
       @ ''</div>''\<close>

definition rubric_open :: string where
  \<open>rubric_open = ''<div class="rubric">''\<close>

definition rubric_items :: "json \<Rightarrow> string" where
  "rubric_items t = concat (map rubric_item (items t))"

definition filler_item :: "json \<Rightarrow> string" where
  \<open>filler_item t =
     ''<div class="rubric-item">Filler count: '' @ coalesce (get_prop t FillerCount) em_dash
       @ ''</div>''\<close>

definition pauses_item :: "json \<Rightarrow> string" where
  \<open>pauses_item t =
     ''<div class="rubric-item">Long pauses: '' @ coalesce (get_prop t LongPauses) em_dash
       @ ''</div>''\<close>

definition trailing_item :: "json \<Rightarrow> string" where
  \<open>trailing_item t =
     ''<div class="rubric-item">Trailing/ramble: '' @ badge (get_prop t TrailingSentences)
       @ ''</div>''\<close>

text \<open>
  The pace line:
  \<^verbatim>\<open>
  if (t.pace_wpm != null) {
    const paceLabel = t.pace_rating ? t.pace_rating.replace(/_/g, ' ') : '-';
    html += `<div class="rubric-item">Pace: ${t.pace_wpm} WPM (${paceLabel})${
              t.pace_feedback ? ': ' + escapeHtml(t.pace_feedback) : ''}</div>`;
  }
  \<close>
  \<^verbatim>\<open>replace\<close> is a method of strings: a truthy \<^verbatim>\<open>pace_rating\<close> that is not
  a string has none and the call throws a TypeError.
\<close>

definition pace_label :: "json \<Rightarrow> js_error + string" where
  "pace_label t =
     (case get_prop t PaceRating of
        Some (JStr r) \<Rightarrow>
          if r \<noteq> [] then Inr (map (\<lambda>c. if c = CHR ''_'' then CHR '' '' else c) r) else Inr em_dash
      | x \<Rightarrow> if truthy x then Inl TypeError else Inr em_dash)"

definition pace_item :: "json \<Rightarrow> js_error + string" where
  \<open>pace_item t =
     (if \<not> non_null (get_prop t PaceWpm) then Inr []
      else (case pace_label t of
              Inl e \<Rightarrow> Inl e
            | Inr paceLabel \<Rightarrow>
                Inr (''<div class="rubric-item">Pace: '' @ to_string (get_prop t PaceWpm)
                     @ '' WPM ('' @ paceLabel @ '')''
                     @ (if truthy (get_prop t PaceFeedback)
                        then '': '' @ escapeHtml (get_prop t PaceFeedback) else [])
                     @ ''</div>'')))\<close>

text \<open>
  \<^verbatim>\<open>
  if (t.relevance_to_role && (t.relevance_to_role.met != null || t.relevance_to_role.note)) {
    html += `<div class="rubric-item">Relevance to role: ${badge(t.relevance_to_role.met)}${
              t.relevance_to_role.note ? ' ' + escapeHtml(t.relevance_to_role.note) : ''}</div>`;
  }
  \<close>
\<close>

definition relevance_item :: "json \<Rightarrow> string" where
  \<open>relevance_item t =
     (case get_prop t RelevanceToRole of
        None \<Rightarrow> []
      | Some r \<Rightarrow>
          if js_truthy r \<and> (non_null (get_prop r Met) \<or> truthy (get_prop r Note))
          then ''<div class="rubric-item">Relevance to role: '' @ badge (get_prop r Met)
               @ (if truthy (get_prop r Note) then '' '' @ escapeHtml (get_prop r Note) else [])
               @ ''</div>''
          else [])\<close>

definition question_type_item :: "json \<Rightarrow> string" where
  \<open>question_type_item t =
     ''<div class="rubric-item">Question type: ''
       @ escapeHtml (js_or (get_prop t QuestionType) em_dash) @ ''</div>''\<close>

text \<open>
  \<^verbatim>\<open>
  if (t.actionable_feedback) {
    html += `<div class="rubric-item" style="margin-top:0.5rem"><strong>Feedback:</strong> ${
              escapeHtml(t.actionable_feedback)}</div>`;
  }
  \<close>
\<close>

definition feedback_item :: "json \<Rightarrow> string" where
  \<open>feedback_item t =
     (if truthy (get_prop t ActionableFeedback)
      then ''<div class="rubric-item" style="margin-top:0.5rem"><strong>Feedback:</strong> ''
           @ escapeHtml (get_prop t ActionableFeedback) @ ''</div>''
      else [])\<close>

definition turn_close :: string where
  "turn_close = ''</div></div>''"

text \<open>The markup of a turn, given the pace line.\<close>

definition turn_body :: "json \<Rightarrow> string \<Rightarrow> string" where
  "turn_body t pace =
     turn_open t @ rubric_open @ rubric_items t @ filler_item t @ pauses_item t
       @ trailing_item t @ pace @ relevance_item t @ question_type_item t @ feedback_item t
       @ turn_close"

text \<open>
  \<^verbatim>\<open>renderTurnScore(t)\<close>. Reading \<^verbatim>\<open>t.direct_answer_10s\<close> of a
  \<^verbatim>\<open>null\<close> turn throws, and so may the pace line; nothing else does.
\<close>

definition renderTurnScore :: "json \<Rightarrow> js_error + string" where
  "renderTurnScore t =
     (if t = JNull then Inl TypeError
      else (case pace_item t of
              Inl e \<Rightarrow> Inl e
            | Inr pace \<Rightarrow> Inr (turn_body t pace)))"

section \<open>The guided session\<close>

text \<open>
  \<^verbatim>\<open>
  let guidedState = {
    mode: 'setup', // 'setup' | 'active' | 'feedback' | 'complete'
    questions: [],
    currentQuestionIndex: 0,
    jobDescription: '',
    sessionResults: [],
  };
  \<close>
  \<^verbatim>\<open>onGuidedStopRecording\<close> also sets the mode \<^verbatim>\<open>'analyzing'\<close>.
  \<^verbatim>\<open>sessionResults\<close> is a JavaScript array written by index, so it can have
  holes: a hole is \<open>None\<close>. The record also holds the parts of the page the
  handlers write and the properties below read: the recorder, the status line, the
  current question and its playback, the feedback panel and the summary panel.
\<close>

datatype mode = Setup | Active | Analyzing | Feedback | Complete

text \<open>
  What \<^verbatim>\<open>showGuidedFeedback\<close> leaves in \<^verbatim>\<open>guidedFeedbackEl\<close>: nothing,
  the paragraph \<^verbatim>\<open>No feedback available.\<close>, or the feedback markup built from a
  stored result (lines 456 to 481). The characters of that markup are not modelled,
  only which result it is built from and whether building it throws.
\<close>

datatype feedback_view = Blank | NoFeedbackAvailable | FeedbackFor json

record app =
  mode :: mode
  questions :: "json list"
  currentQuestionIndex :: nat
  jobDescription :: string
  sessionResults :: "json option list"
  recording :: bool
  statusEl :: "string \<times> string"
  currentQuestionEl :: jsval
  speaking :: jsval
  guidedFeedbackEl :: feedback_view
  sessionSummaryEl :: string

definition initial :: app where
  "initial =
     \<lparr>mode = Setup, questions = [], currentQuestionIndex = 0, jobDescription = [],
      sessionResults = [], recording = False, statusEl = ([], []),
      currentQuestionEl = None, speaking = None, guidedFeedbackEl = Blank,
      sessionSummaryEl = []\<rparr>"

text \<open>
  Reading and writing an array by index. A read past the end or of a hole gives
  \<^verbatim>\<open>undefined\<close>; a write past the end extends the array with holes.
\<close>

definition arr_get :: "'a option list \<Rightarrow> nat \<Rightarrow> 'a option" where
  "arr_get xs i = (if i < length xs then xs ! i else None)"

definition arr_set :: "'a option list \<Rightarrow> nat \<Rightarrow> 'a \<Rightarrow> 'a option list" where
  "arr_set xs i v =
     (if i < length xs then xs[i := Some v]
      else xs @ replicate (i - length xs) None @ [Some v])"

definition nth_opt :: "'a list \<Rightarrow> nat \<Rightarrow> 'a option" where
  "nth_opt xs i = (if i < length xs then Some (xs ! i) else None)"

text \<open>\<^verbatim>\<open>setStatus(msg, type)\<close> and \<^verbatim>\<open>clearStatus()\<close>.\<close>

definition setStatus :: "string \<Rightarrow> string \<Rightarrow> app \<Rightarrow> app" where
  "setStatus msg type s = s\<lparr>statusEl := (msg, type)\<rparr>"

definition clearStatus :: "app \<Rightarrow> app" where
  "clearStatus s = setStatus [] [] s"

text \<open>
  \<^verbatim>\<open>
  function showCurrentQuestion() {
    const q = guidedState.questions[guidedState.currentQuestionIndex];
    ...
    currentQuestionEl.textContent = q;
    btnStartAnswer.disabled = true;
    if (guidedState.mode === 'active') {
      speakQuestion(q).then(() => { btnStartAnswer.disabled = false; });
    } else { btnStartAnswer.disabled = false; }
  }
  \<close>
  \<^verbatim>\<open>speakQuestion(text)\<close> returns at once when \<open>text\<close> is falsy.
\<close>

definition speakQuestion :: "jsval \<Rightarrow> app \<Rightarrow> app" where
  "speakQuestion q s = (if \<not> truthy q then s else s\<lparr>speaking := q\<rparr>)"

definition stopSpeaking :: "app \<Rightarrow> app" where
  "stopSpeaking s = s\<lparr>speaking := None\<rparr>"

definition showCurrentQuestion :: "app \<Rightarrow> app" where
  "showCurrentQuestion s =
     (let q = nth_opt (questions s) (currentQuestionIndex s);
          s1 = s\<lparr>currentQuestionEl := q\<rparr>
      in if mode s1 = Active then speakQuestion q s1 else s1)"

text \<open>
  \<^verbatim>\<open>
  function startGuidedInterview() {
    if (!guidedState.questions.length) return;
    guidedState.mode = 'active';
    guidedState.currentQuestionIndex = 0;
    guidedState.sessionResults = [];
    ...
    guidedFeedbackEl.innerHTML = '';
    ...
    showCurrentQuestion();
  }
  \<close>
\<close>

definition startGuidedInterview :: "app \<Rightarrow> app" where
  "startGuidedInterview s =
     (if length (questions s) = 0 then s
      else showCurrentQuestion
             (s\<lparr>mode := Active, currentQuestionIndex := 0, sessionResults := [],
                guidedFeedbackEl := Blank\<rparr>))"

text \<open>
  \<^verbatim>\<open>
  function showGuidedFeedback() {
    const data = guidedState.sessionResults[guidedState.currentQuestionIndex];
    if (data && data.scores && data.scores.turns && data.scores.turns.length > 0) {
      let html = '<div class="section"><h2>Feedback</h2>';
      if (data.segments && data.segments.length > 0) {
        const fullTranscript = data.segments.map((s) => s.text).join(' ').trim();
        ...
      }
      if (data.scores.overall_summary) { ... escapeHtml(data.scores.overall_summary) ... }
      data.scores.turns.forEach((t) => { html += renderTurnScore(t); });
      if (data.rewrites && data.rewrites.length > 0) {
        ...
        data.rewrites.forEach((r) => { ... if (r.tight_45s) ...; if (r.expanded_2min) ...; });
      }
      html += '</div>';
      guidedFeedbackEl.innerHTML = html;
    } else {
      guidedFeedbackEl.innerHTML = '<p class="muted">No feedback available.</p>';
    }
    btnTryAgain.style.display = 'inline-block';
    ...
  }
  \<close>
  The markup is built first and the panel is written last, so an exception while
  building leaves the panel as it was.

  \<open>scored_turns d\<close> is the value of \<^verbatim>\<open>data.scores.turns\<close> when the test of the
  first line holds.
\<close>

definition scored_turns :: "jsval \<Rightarrow> json option" where
  "scored_turns d =
     (case d of
        None \<Rightarrow> None
      | Some data \<Rightarrow>
          if \<not> js_truthy data then None
          else (case get_prop data Scores of
                  None \<Rightarrow> None
                | Some scores \<Rightarrow>
                    if \<not> js_truthy scores then None
                    else (case get_prop scores Turns of
                            None \<Rightarrow> None
                          | Some turns \<Rightarrow>
                              if js_truthy turns \<and> length_positive turns then Some turns
                              else None)))"

text \<open>
  \<^verbatim>\<open>xs.map(f)\<close> and \<^verbatim>\<open>xs.forEach(f)\<close> with a callback that may throw: the
  first exception ends the loop.
\<close>

fun each :: "(json \<Rightarrow> js_error + 'a) \<Rightarrow> json list \<Rightarrow> js_error + 'a list" where
  "each f [] = Inr []"
| "each f (x # xs) =
     (case f x of
        Inl e \<Rightarrow> Inl e
      | Inr y \<Rightarrow> (case each f xs of Inl e \<Rightarrow> Inl e | Inr ys \<Rightarrow> Inr (y # ys)))"

text \<open>
  \<^verbatim>\<open>if (x && x.length > 0) { x.map(f) }\<close>, and the same with
  \<^verbatim>\<open>forEach\<close>. Only arrays have these methods: on a string that is not empty
  the test holds and the call throws a TypeError.
\<close>

definition over_array :: "jsval \<Rightarrow> (json \<Rightarrow> js_error + 'a) \<Rightarrow> js_error + 'a list" where
  "over_array x f =
     (case x of
        Some (JArr xs) \<Rightarrow> each f xs
      | Some (JStr s) \<Rightarrow> if s \<noteq> [] then Inl TypeError else Inr []
      | _ \<Rightarrow> Inr [])"

text \<open>The callbacks: \<^verbatim>\<open>(s) => s.text\<close>, and the reads of \<^verbatim>\<open>r.tight_45s\<close>.\<close>

definition segment_text :: "json \<Rightarrow> js_error + jsval" where
  "segment_text s = (if s = JNull then Inl TypeError else Inr (get_prop s Text))"

definition rewrite_block :: "json \<Rightarrow> js_error + jsval" where
  "rewrite_block r = (if r = JNull then Inl TypeError else Inr (get_prop r Tight45s))"

text \<open>
  Building the feedback markup from \<open>data\<close> and its \<open>turns\<close>: the transcript, the
  turns, the rewrites.
\<close>

definition feedback_markup :: "json \<Rightarrow> json \<Rightarrow> js_error + feedback_view" where
  "feedback_markup data turns =
     (case over_array (get_prop data Segments) segment_text of
        Inl e \<Rightarrow> Inl e
      | Inr texts \<Rightarrow>
          (case over_array (Some turns) renderTurnScore of
             Inl e \<Rightarrow> Inl e
           | Inr htmls \<Rightarrow>
               (case over_array (get_prop data Rewrites) rewrite_block of
                  Inl e \<Rightarrow> Inl e
                | Inr rs \<Rightarrow> Inr (FeedbackFor data))))"

definition render_feedback :: "jsval \<Rightarrow> js_error + feedback_view" where
  "render_feedback d =
     (case scored_turns d of
        None \<Rightarrow> Inr NoFeedbackAvailable
      | Some turns \<Rightarrow>
          (case d of
             Some data \<Rightarrow> feedback_markup data turns
           | None \<Rightarrow> Inr NoFeedbackAvailable))"

text \<open>
  The handler returns the session and the exception it ended with, if it ended with
  one.
\<close>

definition showGuidedFeedback :: "app \<Rightarrow> app \<times> js_error option" where
  "showGuidedFeedback s =
     (case render_feedback (arr_get (sessionResults s) (currentQuestionIndex s)) of
        Inr v \<Rightarrow> (s\<lparr>guidedFeedbackEl := v\<rparr>, None)
      | Inl e \<Rightarrow> (s, Some e))"

text \<open>
  \<^verbatim>\<open>
  function onGuidedAnalyzeResult(data) {
    guidedState.mode = 'feedback';
    if (data) {
      guidedState.sessionResults[guidedState.currentQuestionIndex] = data;
    }
    showGuidedFeedback();
  }
  \<close>
\<close>

definition onGuidedAnalyzeResult :: "json \<Rightarrow> app \<Rightarrow> app \<times> js_error option" where
  "onGuidedAnalyzeResult data s =
     (let s1 = s\<lparr>mode := Feedback\<rparr>;
          s2 = (if js_truthy data
                then s1\<lparr>sessionResults :=
                         arr_set (sessionResults s1) (currentQuestionIndex s1) data\<rparr>
                else s1)
      in showGuidedFeedback s2)"

text \<open>
  \<^verbatim>\<open>uploadAndAnalyze(blob, options)\<close> as the guided flow calls it, with
  \<^verbatim>\<open>onSuccess: (data) => onGuidedAnalyzeResult(data)\<close>:
  \<^verbatim>\<open>
  setStatus('Transcribing and scoring...', 'loading');
  ...
  if (options.questionText) formData.append('question_text', options.questionText);
  if (options.jobDescription) formData.append('job_description', options.jobDescription);
  ...
  try {
    const res = await fetch(`/api/analyze?${params}`, { method: 'POST', body: formData });
    if (!res.ok) { ... throw new Error(msg); }
    const data = await res.json();
    if (options.onSuccess) { options.onSuccess(data); } else { renderResults(data); }
    clearStatus();
  } catch (err) {
    setStatus('Error: ' + err.message, 'error');
    if (options.onSuccess) options.onSuccess(null);
  }
  \<close>
  The call shows the status and posts the request. When the reply arrives, the parsed
  body goes to \<^verbatim>\<open>onSuccess\<close> and the status is cleared. A rejected
  \<^verbatim>\<open>fetch\<close>, a response that is not \<^verbatim>\<open>ok\<close> and a body that is not JSON end
  in the \<^verbatim>\<open>catch\<close>, and so does an exception thrown by \<^verbatim>\<open>onSuccess(data)\<close>
  itself: the \<^verbatim>\<open>catch\<close> shows the error and calls \<^verbatim>\<open>onSuccess(null)\<close>. An
  exception thrown by that second call rejects the promise, which nothing observes.

  \<^verbatim>\<open>err.message\<close> of an exception the engine throws is worded by the engine:
  \<open>error_message\<close> is some string, and nothing is assumed about it.
\<close>

definition error_message :: "js_error \<Rightarrow> string" where
  "error_message e = (SOME m. True)"

record analyze_request =
  question_text :: jsval
  job_description :: "string option"
  include_rewrites :: bool

datatype analyze_reply = AnalyzeFailed string | AnalyzeData json

definition uploadAndAnalyze :: "jsval \<Rightarrow> string \<Rightarrow> app \<Rightarrow> app \<times> analyze_request" where
  "uploadAndAnalyze q jd s =
     (setStatus ''Transcribing and scoring...'' ''loading'' s,
      \<lparr>question_text = (if truthy q then q else None),
       job_description = (if jd \<noteq> [] then Some jd else None),
       include_rewrites = True\<rparr>)"

definition analyzeCompleted :: "analyze_reply \<Rightarrow> app \<Rightarrow> app" where
  "analyzeCompleted r s =
     (case r of
        AnalyzeData data \<Rightarrow>
          (case onGuidedAnalyzeResult data s of
             (s1, None) \<Rightarrow> clearStatus s1
           | (s1, Some e) \<Rightarrow>
               fst (onGuidedAnalyzeResult JNull
                      (setStatus (''Error: '' @ error_message e) ''error'' s1)))
      | AnalyzeFailed msg \<Rightarrow>
          fst (onGuidedAnalyzeResult JNull (setStatus (''Error: '' @ msg) ''error'' s)))"

text \<open>
  Recording. \<^verbatim>\<open>onGuidedStartRecording\<close> needs the microphone; the recorder's
  \<^verbatim>\<open>onstop\<close> handler (lines 410 to 426) receives the captured chunks, here the
  size of the blob they make:
  \<^verbatim>\<open>
  if (blob.size > 0) {
    const q = guidedState.questions[guidedState.currentQuestionIndex];
    uploadAndAnalyze(blob, { questionText: q, jobDescription: ..., includeRewrites: true,
                             onSuccess: (data) => onGuidedAnalyzeResult(data) });
  } else {
    setStatus('No audio captured. Record for at least a few seconds.', 'error');
    guidedState.mode = 'feedback';
    showGuidedFeedback();
  }
  \<close>
  The handler returns the request it posts, if it posts one. An exception thrown by
  \<^verbatim>\<open>showGuidedFeedback\<close> ends the handler, and nothing catches it.
\<close>

datatype microphone = NoMediaDevices | Denied string | Granted

definition onGuidedStartRecording :: "microphone \<Rightarrow> app \<Rightarrow> app" where
  "onGuidedStartRecording mic s =
     (case mic of
        NoMediaDevices \<Rightarrow> setStatus ''Microphone access requires a secure context.'' ''error'' s
      | Denied msg \<Rightarrow> setStatus (''Microphone access denied: '' @ msg) ''error'' (stopSpeaking s)
      | Granted \<Rightarrow> (stopSpeaking s)\<lparr>recording := True\<rparr>)"

definition onGuidedStopRecording :: "app \<Rightarrow> app" where
  "onGuidedStopRecording s =
     (if \<not> recording s then s else s\<lparr>recording := False, mode := Analyzing\<rparr>)"

definition recorder_onstop :: "nat \<Rightarrow> app \<Rightarrow> app \<times> analyze_request option" where
  "recorder_onstop blob_size s =
     (if blob_size > 0
      then (let q = nth_opt (questions s) (currentQuestionIndex s);
                (s1, req) = uploadAndAnalyze q (jobDescription s) s
            in (s1, Some req))
      else (fst (showGuidedFeedback
                   ((setStatus ''No audio captured. Record for at least a few seconds.''
                       ''error'' s)
                      \<lparr>mode := Feedback\<rparr>)),
            None))"

text \<open>
  \<^verbatim>\<open>
  function onTryAgain() {
    guidedState.mode = 'active';
    guidedFeedbackEl.innerHTML = '';
    ...
    showCurrentQuestion();
  }
  function onNextQuestion() {
    guidedState.currentQuestionIndex++;
    if (guidedState.currentQuestionIndex >= guidedState.questions.length) {
      showSessionSummary();
      return;
    }
    guidedState.mode = 'active';
    guidedFeedbackEl.innerHTML = '';
    ...
    showCurrentQuestion();
  }
  \<close>
\<close>

definition onTryAgain :: "app \<Rightarrow> app" where
  "onTryAgain s = showCurrentQuestion (s\<lparr>mode := Active, guidedFeedbackEl := Blank\<rparr>)"

text \<open>
  \<^verbatim>\<open>
  function showSessionSummary() {
    guidedState.mode = 'complete';
    ...
    const results = guidedState.sessionResults.filter(Boolean);
    let html = '<h2>Session complete</h2><p>You answered ' + results.length + ' question(s).</p>';
    results.forEach((r, i) => {
      const q = guidedState.questions[i] || 'Question ' + (i + 1);
      html += `<div class="turn"><strong>${escapeHtml(q)}</strong><br>`;
      if (r.scores?.overall_summary) html += `<span class="muted">${escapeHtml(r.scores.overall_summary)}</span>`;
      html += '</div>';
    });
    sessionSummaryEl.innerHTML = html;
  }
  \<close>
  \<^verbatim>\<open>filter\<close> skips the holes of the array and keeps the truthy elements.
\<close>

definition filter_Boolean :: "json option list \<Rightarrow> json list" where
  "filter_Boolean xs = concat (map (\<lambda>x. case x of None \<Rightarrow> [] | Some r \<Rightarrow> if js_truthy r then [r] else []) xs)"

definition overall_summary :: "json \<Rightarrow> jsval" where
  "overall_summary r =
     (if nullish (get_prop r Scores) then None
      else (case get_prop r Scores of Some sc \<Rightarrow> get_prop sc OverallSummary | None \<Rightarrow> None))"

definition summary_entry :: "json list \<Rightarrow> nat \<times> json \<Rightarrow> string" where
  \<open>summary_entry qs ir =
     (case ir of (i, r) \<Rightarrow>
        ''<div class="turn"><strong>''
        @ escapeHtml (js_or (nth_opt qs i) (''Question '' @ nat_to_string (i + 1)))
        @ ''</strong><br>''
        @ (if truthy (overall_summary r)
           then ''<span class="muted">'' @ escapeHtml (overall_summary r) @ ''</span>''
           else [])
        @ ''</div>'')\<close>

definition summary_html :: "app \<Rightarrow> string" where
  "summary_html s =
     (let results = filter_Boolean (sessionResults s)
      in ''<h2>Session complete</h2><p>You answered '' @ nat_to_string (length results)
         @ '' question(s).</p>''
         @ concat (map (summary_entry (questions s)) (enumerate 0 results)))"

definition showSessionSummary :: "app \<Rightarrow> app" where
  "showSessionSummary s = s\<lparr>mode := Complete, sessionSummaryEl := summary_html s\<rparr>"

definition onNextQuestion :: "app \<Rightarrow> app" where
  "onNextQuestion s =
     (let s1 = s\<lparr>currentQuestionIndex := currentQuestionIndex s + 1\<rparr>
      in if currentQuestionIndex s1 \<ge> length (questions s1) then showSessionSummary s1
         else showCurrentQuestion (s1\<lparr>mode := Active, guidedFeedbackEl := Blank\<rparr>))"

text \<open>
  \<^verbatim>\<open>
  async function loadQuestions() {
    const jd = jobDescriptionEl?.value?.trim() || '';
    setStatus('Loading questions...', 'loading');
    try {
      let res;
      if (jd) { res = await fetch('/api/adapt-questions', { method: 'POST', ... }); }
      else { res = await fetch('/api/questions'); }
      const data = await res.json();
      guidedState.questions = data.questions || [];
      guidedState.jobDescription = jd;
      renderQuestionList();
      clearStatus();
    } catch (err) {
      setStatus('Error: ' + err.message, 'error');
    }
  }
  \<close>
  The reply of the collaborator: \<^verbatim>\<open>fetch\<close> rejects, or there is a response with
  its \<^verbatim>\<open>ok\<close> flag and a body. The body is not JSON (\<^verbatim>\<open>res.json()\<close>
  rejects), or it is \<^verbatim>\<open>null\<close> (reading \<^verbatim>\<open>data.questions\<close> throws), or it
  is any other value, whose \<^verbatim>\<open>questions\<close> member is an array or is missing or
  falsy. A truthy \<^verbatim>\<open>questions\<close> that is not an array is outside the model.
\<close>

datatype questions_body = NotJson string | NullBody string | Body "json list option"

datatype questions_reply = Rejected string | Responded bool questions_body

definition loadQuestions :: "string \<Rightarrow> questions_reply \<Rightarrow> app \<Rightarrow> app" where
  "loadQuestions jd reply s =
     (let s1 = setStatus ''Loading questions...'' ''loading'' s
      in case reply of
           Rejected msg \<Rightarrow> setStatus (''Error: '' @ msg) ''error'' s1
         | Responded ok (NotJson msg) \<Rightarrow> setStatus (''Error: '' @ msg) ''error'' s1
         | Responded ok (NullBody msg) \<Rightarrow> setStatus (''Error: '' @ msg) ''error'' s1
         | Responded ok (Body qs) \<Rightarrow>
             clearStatus
               (s1\<lparr>questions := (case qs of Some xs \<Rightarrow> xs | None \<Rightarrow> []),
                   jobDescription := jd\<rparr>))"

section \<open>Sessions\<close>

text \<open>
  One attempt at the current question: the user starts the recorder, stops it, the
  recorder's \<^verbatim>\<open>onstop\<close> handler runs on a blob of the given size, and when it
  posted a request the reply of the analysis arrives.
\<close>

definition attempt :: "nat \<Rightarrow> analyze_reply \<Rightarrow> app \<Rightarrow> app" where
  "attempt blob_size reply s =
     (case recorder_onstop blob_size (onGuidedStopRecording (onGuidedStartRecording Granted s)) of
        (s1, Some req) \<Rightarrow> analyzeCompleted reply s1
      | (s1, None) \<Rightarrow> s1)"

text \<open>
  The session of the specification's test: every question is answered once, the
  second one is tried again, and "next" is taken to the end.
\<close>

definition retry_scenario ::
  "json list \<Rightarrow> analyze_reply \<Rightarrow> analyze_reply \<Rightarrow> analyze_reply \<Rightarrow> analyze_reply \<Rightarrow> app" where
  "retry_scenario qs a b b' c =
     onNextQuestion (attempt 1 c
       (onNextQuestion (attempt 1 b' (onTryAgain (attempt 1 b
          (onNextQuestion (attempt 1 a
             (startGuidedInterview (initial\<lparr>questions := qs\<rparr>)))))))))"

text \<open>Sample data: an analysis result with one scored turn, and two question sets.\<close>

definition scored :: "string \<Rightarrow> json" where
  "scored summary =
     JObj [(Segments, JArr [JObj [(Text, JStr ''I led the migration''),
                                      (Start, JNum 0), (End, JNum 5)]]),
           (Scores, JObj [(Turns, JArr [JObj [(Text, JStr ''I led the migration''),
                                                       (FillerCount, JNum 2)]]),
                              (OverallSummary, JStr summary)]),
           (Rewrites, JArr [])]"

definition two_questions :: "json list" where
  "two_questions = [JStr ''Tell me about a conflict'', JStr ''Estimate daily rideshare trips'']"

definition three_questions :: "json list" where
  "three_questions = [JStr ''Tell me about a conflict'', JStr ''Estimate daily rideshare trips'',
                      JStr ''Why this role'']"

definition session2 :: app where
  "session2 = startGuidedInterview (initial\<lparr>questions := two_questions\<rparr>)"

text \<open>The first of two questions answered and scored, then "try again".\<close>

definition first_answered :: app where
  "first_answered = attempt 1 (AnalyzeData (scored ''First take'')) session2"

definition retrying :: app where
  "retrying = onTryAgain first_answered"

text \<open>The retry recorded with audio: its analysis is in flight.\<close>

definition retry_in_flight :: app where
  "retry_in_flight =
     fst (recorder_onstop 1 (onGuidedStopRecording (onGuidedStartRecording Granted retrying)))"

text \<open>The retry stopped: the recorder's \<^verbatim>\<open>onstop\<close> handler is about to run.\<close>

definition retry_stopped :: app where
  "retry_stopped = onGuidedStopRecording (onGuidedStartRecording Granted retrying)"

text \<open>
  The first question left without audio and "next" taken, then the second question
  answered and scored.
\<close>

definition second_answered :: app where
  "second_answered =
     attempt 1 (AnalyzeData (scored ''Good estimate''))
       (onNextQuestion (attempt 0 (AnalyzeFailed []) session2))"

text \<open>The only question of a session answered and scored.\<close>

definition only_answered :: app where
  "only_answered =
     attempt 1 (AnalyzeData (scored ''Only take''))
       (startGuidedInterview (initial\<lparr>questions := [JStr ''Why this role'']\<rparr>))"

text \<open>
  The analyze calls in flight. The page keeps no list of them; the browser does, and a
  reply belongs to one of them. \<open>calls\<close> lists the requests that have been posted
  and not yet answered, oldest first, so that the order in which calls were started
  can be spoken of.
\<close>

record page =
  session :: app
  calls :: "analyze_request list"

text \<open>A handler run on the session; the recorder stopping; a call completing.\<close>

definition user :: "(app \<Rightarrow> app) \<Rightarrow> page \<Rightarrow> page" where
  "user handler p = p\<lparr>session := handler (session p)\<rparr>"

definition capture_stopped :: "nat \<Rightarrow> page \<Rightarrow> page" where
  "capture_stopped blob_size p =
     (case recorder_onstop blob_size (session p) of
        (s, None) \<Rightarrow> p\<lparr>session := s\<rparr>
      | (s, Some req) \<Rightarrow> p\<lparr>session := s, calls := calls p @ [req]\<rparr>)"

definition call_completes :: "nat \<Rightarrow> analyze_reply \<Rightarrow> page \<Rightarrow> page" where
  "call_completes i reply p =
     (if i < length (calls p)
      then \<lparr>session = analyzeCompleted reply (session p),
            calls = take i (calls p) @ drop (Suc i) (calls p)\<rparr>
      else p)"

text \<open>
  A restart while a call is in flight. The first question is recorded and its
  analysis is posted; before the reply arrives the user goes back to the set-up panel
  (the mode button shows it, and the start button is never disabled) and starts the
  interview again. The first question is recorded again and the second call is
  answered; then the user tries again. The first call is still in flight.
\<close>

definition recorded :: "page \<Rightarrow> page" where
  "recorded p =
     capture_stopped 1 (user onGuidedStopRecording (user (onGuidedStartRecording Granted) p))"

definition restarted :: page where
  "restarted =
     user onTryAgain
       (call_completes 1 (AnalyzeData (scored ''First take''))
          (recorded (user startGuidedInterview
             (recorded \<lparr>session = session2, calls = []\<rparr>))))"

text \<open>
  A reply whose list of turns holds \<^verbatim>\<open>null\<close>: \<^verbatim>\<open>{"scores": {"turns": [null]}}\<close>.
\<close>

definition malformed_result :: json where
  "malformed_result = JObj [(Scores, JObj [(Turns, JArr [JNull])])]"

text \<open>A turn score whose relevance criterion has a note and no verdict.\<close>

definition turn_without_verdicts :: json where
  "turn_without_verdicts =
     JObj [(Text, JStr ''I led the migration''),
           (DirectAnswer10s, JObj [(Met, JBool True), (Note, JStr ''yes'')]),
           (SpecificExample, JObj [(Met, JBool False)]),
           (FillerCount, JNum 2),
           (LongPauses, JNum 0),
           (RelevanceToRole, JObj [(Note, JStr ''fits the role'')]),
           (QuestionType, JStr ''Behavioral'')]"

section \<open>Escaped text\<close>

text \<open>
  What the escaping is for. The metacharacters of HTML are \<^verbatim>\<open><\<close>, \<^verbatim>\<open>>\<close> and
  \<^verbatim>\<open>&\<close>, and the entities are what the escaping writes for them.
\<close>

definition meta_char :: "char \<Rightarrow> bool" where
  "meta_char c = (c = CHR ''<'' \<or> c = CHR ''>'' \<or> c = CHR ''&'')"

definition entity_names :: "string list" where
  "entity_names = [''&amp;'', ''&lt;'', ''&gt;'', ''&nbsp;'']"

text \<open>
  \<open>escaped s\<close>: the string \<open>s\<close> is a sequence of entities and of characters that
  are not metacharacters. In such a string the metacharacters appear only as
  entities: every \<^verbatim>\<open>&\<close> opens one, and there is no \<^verbatim>\<open><\<close> and no \<^verbatim>\<open>>\<close>.
\<close>

inductive escaped :: "string \<Rightarrow> bool" where
  escaped_Nil: "escaped []"
| escaped_Char: "\<not> meta_char c \<Longrightarrow> escaped s \<Longrightarrow> escaped (c # s)"
| escaped_Entity: "e \<in> set entity_names \<Longrightarrow> escaped s \<Longrightarrow> escaped (e @ s)"

text \<open>Reading the entities back.\<close>

fun unescape_text :: "string \<Rightarrow> string" where
  "unescape_text [] = []"
| "unescape_text (c # cs) =
     (if c = CHR ''&'' \<and> take 4 cs = ''amp;'' then CHR ''&'' # unescape_text (drop 4 cs)
      else if c = CHR ''&'' \<and> take 3 cs = ''lt;'' then CHR ''<'' # unescape_text (drop 3 cs)
      else if c = CHR ''&'' \<and> take 3 cs = ''gt;'' then CHR ''>'' # unescape_text (drop 3 cs)
      else if c = CHR ''&'' \<and> take 5 cs = ''nbsp;'' then CHR 0xC2 # CHR 0xA0 # unescape_text (drop 5 cs)
      else c # unescape_text cs)"

text \<open>
  A value reaches a string escaped when the string is a fixed text around
  \<^verbatim>\<open>escapeHtml\<close> of the value, or another fixed text when the value is falsy:
  nothing of the value is in the string but what \<^verbatim>\<open>escapeHtml\<close> returned for it.
\<close>

definition escaped_hole :: "(json \<Rightarrow> string) \<Rightarrow> bool" where
  "escaped_hole g =
     (\<exists>pre a b c post. \<forall>v.
        g v = pre @ (if js_truthy v then a @ escapeHtml (Some v) @ b else c) @ post)"

text \<open>
  \<open>turn_with v\<close> is a turn score that holds the value \<open>v\<close> in one of its fields.
  The field reaches the markup escaped when \<^verbatim>\<open>renderTurnScore\<close> throws for every
  \<open>v\<close>, or returns for every \<open>v\<close> a markup that \<open>v\<close> reaches escaped.
\<close>

definition reaches_markup_escaped :: "(json \<Rightarrow> json) \<Rightarrow> bool" where
  "reaches_markup_escaped turn_with =
     ((\<forall>v. renderTurnScore (turn_with v) = Inl TypeError) \<or>
      (\<exists>body. escaped_hole body \<and> (\<forall>v. renderTurnScore (turn_with v) = Inr (body v))))"

text \<open>The criteria that carry a note.\<close>

definition noted_criteria :: "key list" where
  "noted_criteria =
     [DirectAnswer10s, SpecificExample, QuantifiedImpact, Tradeoffs, CrispTakeaway,
      RelevanceToRole]"

text \<open>A turn score whose free text is full of metacharacters.\<close>

definition turn_with_markup :: json where
  "turn_with_markup =
     JObj [(Text, JStr ''<b>bold</b> & more''),
           (DirectAnswer10s, JObj [(Met, JBool True), (Note, JStr ''a < b'')]),
           (FillerCount, JNum 2),
           (PaceWpm, JNum 140),
           (PaceRating, JStr ''too_fast''),
           (PaceFeedback, JStr ''slow <down>''),
           (QuestionType, JStr ''<i>''),
           (ActionableFeedback, JStr ''use > less & more'')]"

section \<open>How the handlers change the session\<close>

lemma arr_get_set: "arr_get (arr_set xs i v) i = Some v"
  by (simp add: arr_get_def arr_set_def nth_append)

lemma arr_set_inside: "i < length xs \<Longrightarrow> arr_set xs i v = xs[i := Some v]"
  by (simp add: arr_set_def)

lemma shown_frame:
  "fst (showGuidedFeedback s) =
     s\<lparr>guidedFeedbackEl :=
         (case render_feedback (arr_get (sessionResults s) (currentQuestionIndex s)) of
            Inr v \<Rightarrow> v
          | Inl e \<Rightarrow> guidedFeedbackEl s)\<rparr>"
  by (simp add: showGuidedFeedback_def split: sum.splits)

lemma result_fields:
  "mode (fst (onGuidedAnalyzeResult d s)) = Feedback"
  "currentQuestionIndex (fst (onGuidedAnalyzeResult d s)) = currentQuestionIndex s"
  "questions (fst (onGuidedAnalyzeResult d s)) = questions s"
  "sessionResults (fst (onGuidedAnalyzeResult d s)) =
     (if js_truthy d then arr_set (sessionResults s) (currentQuestionIndex s) d
      else sessionResults s)"
  by (simp_all add: onGuidedAnalyzeResult_def shown_frame Let_def)

lemma completed_data:
  "analyzeCompleted (AnalyzeData d) s =
     (case snd (onGuidedAnalyzeResult d s) of
        None \<Rightarrow> clearStatus (fst (onGuidedAnalyzeResult d s))
      | Some e \<Rightarrow>
          fst (onGuidedAnalyzeResult JNull
                 (setStatus (''Error: '' @ error_message e) ''error''
                    (fst (onGuidedAnalyzeResult d s)))))"
  by (simp add: analyzeCompleted_def split: prod.splits option.splits)

lemma completed_failed:
  "analyzeCompleted (AnalyzeFailed msg) s =
     fst (onGuidedAnalyzeResult JNull (setStatus (''Error: '' @ msg) ''error'' s))"
  by (simp add: analyzeCompleted_def)

lemma status_fields:
  "mode (setStatus m t s) = mode s"
  "currentQuestionIndex (setStatus m t s) = currentQuestionIndex s"
  "questions (setStatus m t s) = questions s"
  "sessionResults (setStatus m t s) = sessionResults s"
  "mode (clearStatus s) = mode s"
  "currentQuestionIndex (clearStatus s) = currentQuestionIndex s"
  "questions (clearStatus s) = questions s"
  "sessionResults (clearStatus s) = sessionResults s"
  by (simp_all add: setStatus_def clearStatus_def)

lemma completed_fields:
  "mode (analyzeCompleted r s) = Feedback"
  "currentQuestionIndex (analyzeCompleted r s) = currentQuestionIndex s"
  "questions (analyzeCompleted r s) = questions s"
  "sessionResults (analyzeCompleted (AnalyzeData d) s) =
     (if js_truthy d then arr_set (sessionResults s) (currentQuestionIndex s) d
      else sessionResults s)"
  "sessionResults (analyzeCompleted (AnalyzeFailed msg) s) = sessionResults s"
  by (cases r; simp add: completed_data completed_failed result_fields status_fields
        split: option.splits)+

lemmas handler_defs =
  startGuidedInterview_def showCurrentQuestion_def speakQuestion_def stopSpeaking_def
  onGuidedStartRecording_def onGuidedStopRecording_def
  onTryAgain_def onNextQuestion_def showSessionSummary_def
  setStatus_def clearStatus_def

lemma onstop_fields:
  "snd (recorder_onstop 0 s) = None"
  "snd (recorder_onstop (Suc n) s) \<noteq> None"
  "mode (fst (recorder_onstop 0 s)) = Feedback"
  "mode (fst (recorder_onstop (Suc n) s)) = mode s"
  "currentQuestionIndex (fst (recorder_onstop n s)) = currentQuestionIndex s"
  "questions (fst (recorder_onstop n s)) = questions s"
  "sessionResults (fst (recorder_onstop n s)) = sessionResults s"
  "guidedFeedbackEl (fst (recorder_onstop 0 s)) =
     (case render_feedback (arr_get (sessionResults s) (currentQuestionIndex s)) of
        Inr v \<Rightarrow> v
      | Inl e \<Rightarrow> guidedFeedbackEl s)"
  by (simp_all add: recorder_onstop_def uploadAndAnalyze_def shown_frame setStatus_def Let_def
        split: sum.splits)

lemma recording_fields:
  "mode (onGuidedStopRecording (onGuidedStartRecording Granted s)) = Analyzing"
  "currentQuestionIndex (onGuidedStopRecording (onGuidedStartRecording Granted s)) =
     currentQuestionIndex s"
  "questions (onGuidedStopRecording (onGuidedStartRecording Granted s)) = questions s"
  "sessionResults (onGuidedStopRecording (onGuidedStartRecording Granted s)) = sessionResults s"
  by (simp_all add: handler_defs)

lemma attempt_eq:
  "attempt (Suc n) r s =
     analyzeCompleted r
       (fst (recorder_onstop (Suc n) (onGuidedStopRecording (onGuidedStartRecording Granted s))))"
  "attempt 0 r s =
     fst (recorder_onstop 0 (onGuidedStopRecording (onGuidedStartRecording Granted s)))"
  by (simp_all add: attempt_def recorder_onstop_def uploadAndAnalyze_def Let_def)

lemma attempt_fields:
  "mode (attempt n r s) = Feedback"
  "currentQuestionIndex (attempt n r s) = currentQuestionIndex s"
  "questions (attempt n r s) = questions s"
  "sessionResults (attempt (Suc n) (AnalyzeData d) s) =
     (if js_truthy d then arr_set (sessionResults s) (currentQuestionIndex s) d
      else sessionResults s)"
  "sessionResults (attempt (Suc n) (AnalyzeFailed msg) s) = sessionResults s"
  "sessionResults (attempt 0 r s) = sessionResults s"
  by (cases n; simp add: attempt_eq completed_fields onstop_fields recording_fields)+

lemma next_fields:
  "currentQuestionIndex (onNextQuestion s) = currentQuestionIndex s + 1"
  "mode (onNextQuestion s) =
     (if length (questions s) \<le> currentQuestionIndex s + 1 then Complete else Active)"
  "questions (onNextQuestion s) = questions s"
  "sessionResults (onNextQuestion s) = sessionResults s"
  by (simp_all add: handler_defs Let_def)

lemma retry_fields:
  "currentQuestionIndex (onTryAgain s) = currentQuestionIndex s"
  "mode (onTryAgain s) = Active"
  "questions (onTryAgain s) = questions s"
  "sessionResults (onTryAgain s) = sessionResults s"
  by (simp_all add: handler_defs Let_def)

lemma start_fields:
  "questions s \<noteq> [] \<Longrightarrow> currentQuestionIndex (startGuidedInterview s) = 0"
  "questions s \<noteq> [] \<Longrightarrow> mode (startGuidedInterview s) = Active"
  "questions (startGuidedInterview s) = questions s"
  "questions s \<noteq> [] \<Longrightarrow> sessionResults (startGuidedInterview s) = []"
  by (simp_all add: handler_defs Let_def)

lemma session2_fields:
  "mode session2 = Active"
  "currentQuestionIndex session2 = 0"
  "questions session2 = two_questions"
  "sessionResults session2 = []"
  by (simp_all add: session2_def start_fields two_questions_def)

lemma js_truthy_scored: "js_truthy (scored x)"
  by (simp add: scored_def)

lemma first_answered_fields:
  "mode first_answered = Feedback"
  "currentQuestionIndex first_answered = 0"
  "questions first_answered = two_questions"
  "sessionResults first_answered = [Some (scored ''First take'')]"
  unfolding first_answered_def One_nat_def
  by (simp_all add: attempt_fields session2_fields arr_set_def js_truthy_scored)

lemma retrying_fields:
  "mode retrying = Active"
  "currentQuestionIndex retrying = 0"
  "questions retrying = two_questions"
  "sessionResults retrying = [Some (scored ''First take'')]"
  by (simp_all add: retrying_def retry_fields first_answered_fields)

lemma scored_renders: "render_feedback (Some (scored x)) = Inr (FeedbackFor (scored x))"
  by (simp add: render_feedback_def scored_turns_def scored_def feedback_markup_def
        over_array_def segment_text_def renderTurnScore_def pace_item_def non_null_def)

lemma second_answered_fields:
  "mode second_answered = Feedback"
  "currentQuestionIndex second_answered = 1"
  "questions second_answered = two_questions"
  "sessionResults second_answered = [None, Some (scored ''Good estimate'')]"
  unfolding second_answered_def One_nat_def
  by (simp_all add: attempt_fields next_fields session2_fields arr_set_def js_truthy_scored)

lemma only_answered_fields:
  "mode only_answered = Feedback"
  "currentQuestionIndex only_answered = 0"
  "questions only_answered = [JStr ''Why this role'']"
  "sessionResults only_answered = [Some (scored ''Only take'')]"
  unfolding only_answered_def One_nat_def
  by (simp_all add: attempt_fields start_fields arr_set_def js_truthy_scored)

lemma nat_to_string_digit: "n < 10 \<Longrightarrow> nat_to_string n = [digit_char n]"
  by (simp add: nat_to_string.simps)

lemma summary_after_last:
  "length (questions s) \<le> currentQuestionIndex s + 1 \<Longrightarrow>
   sessionSummaryEl (onNextQuestion s) =
     ''<h2>Session complete</h2><p>You answered ''
       @ nat_to_string (length (filter_Boolean (sessionResults s))) @ '' question(s).</p>''
       @ concat (map (summary_entry (questions s))
                   (enumerate 0 (filter_Boolean (sessionResults s))))"
  by (simp add: onNextQuestion_def showSessionSummary_def summary_html_def Let_def)

section \<open>The calls in flight\<close>

text \<open>
  A completion overwrites the mode before anything reads it, and a call that completes
  runs the completion on the session as it is then.
\<close>

lemma mode_forgotten: "analyzeCompleted r (s\<lparr>mode := m\<rparr>) = analyzeCompleted r s"
  by (simp add: analyzeCompleted_def onGuidedAnalyzeResult_def setStatus_def Let_def
        split: analyze_reply.splits)

lemma page_fields:
  "session (user h p) = h (session p)"
  "calls (user h p) = calls p"
  "i < length (calls p) \<Longrightarrow> session (call_completes i r p) = analyzeCompleted r (session p)"
  "i < length (calls p) \<Longrightarrow> length (calls (call_completes i r p)) = length (calls p) - 1"
  "session (capture_stopped n p) = fst (recorder_onstop n (session p))"
  "length (calls (capture_stopped (Suc n) p)) = Suc (length (calls p))"
  by (auto simp: user_def call_completes_def capture_stopped_def recorder_onstop_def
        uploadAndAnalyze_def Let_def split: prod.splits option.splits)

lemma restarted_fields:
  "length (calls restarted) = 1"
  "mode (session restarted) = Active"
  "currentQuestionIndex (session restarted) = 0"
  "sessionResults (session restarted) = [Some (scored ''First take'')]"
  by code_simp+

section \<open>What the escaping gives\<close>

text \<open>
  The text \<^verbatim>\<open>escapeHtml\<close> returns is escaped, and reading its entities back
  gives the text that went in.
\<close>

lemma escaped_append: "escaped a \<Longrightarrow> escaped b \<Longrightarrow> escaped (a @ b)"
  by (induction rule: escaped.induct) (auto intro: escaped.intros)

lemma escaped_entity: "e \<in> set entity_names \<Longrightarrow> escaped e"
  using escaped_Entity [of e "[]"] by (simp add: escaped_Nil)

lemma escaped_escape_char: "escaped (escape_char c)"
proof (cases "meta_char c")
  case True
  then have "escape_char c \<in> set entity_names"
    by (auto simp: escape_char_def entity_names_def meta_char_def)
  then show ?thesis by (rule escaped_entity)
next
  case False
  then have "escape_char c = [c]"
    by (auto simp: escape_char_def meta_char_def)
  with False show ?thesis by (simp add: escaped_Char escaped_Nil)
qed

lemma escaped_escape_text: "escaped (escape_text s)"
proof (induction s rule: escape_text.induct)
  case 1
  show ?case by (simp add: escaped_Nil)
next
  case (2 c)
  show ?case by (simp add: escaped_escape_char)
next
  case (3 c d cs)
  show ?case
  proof (cases "c = CHR 0xC2 \<and> d = CHR 0xA0")
    case True
    with 3 have "escaped (escape_text cs)" by simp
    then have "escaped (''&nbsp;'' @ escape_text cs)"
      by (rule escaped_Entity [rotated]) (simp add: entity_names_def)
    with True show ?thesis by simp
  next
    case False
    with 3 have "escaped (escape_text (d # cs))" by simp
    with escaped_escape_char [of c] have "escaped (escape_char c @ escape_text (d # cs))"
      by (rule escaped_append)
    moreover from False have "escape_text (c # d # cs) = escape_char c @ escape_text (d # cs)"
      by auto
    ultimately show ?thesis by simp
  qed
qed

lemma escaped_no_tags: "escaped s \<Longrightarrow> CHR ''<'' \<notin> set s \<and> CHR ''>'' \<notin> set s"
  by (induction rule: escaped.induct) (auto simp: meta_char_def entity_names_def)

lemma unescape_escape_char: "unescape_text (escape_char c @ s) = c # unescape_text s"
  by (simp add: escape_char_def)

lemma unescape_escape: "unescape_text (escape_text s) = s"
proof (induction s rule: escape_text.induct)
  case 1
  show ?case by simp
next
  case (2 c)
  show ?case using unescape_escape_char [of c "[]"] by simp
next
  case (3 c d cs)
  then show ?case by (simp add: unescape_escape_char)
qed

section \<open>The fields of a turn in its markup\<close>

text \<open>
  Each statement of \<^verbatim>\<open>renderTurnScore\<close> reads its own fields of the turn. A
  field that is escaped sits in one statement, between fixed texts; the other
  statements give the same text whatever the field holds.
\<close>

lemma hole_base:
  "escaped_hole (\<lambda>v. if js_truthy v then a @ escapeHtml (Some v) @ b else c)"
  unfolding escaped_hole_def
  by (rule exI [of _ "[]"], rule exI [of _ a], rule exI [of _ b], rule exI [of _ c],
      rule exI [of _ "[]"]) simp

lemma hole_pre: "escaped_hole g \<Longrightarrow> escaped_hole (\<lambda>v. p @ g v)"
proof -
  assume "escaped_hole g"
  then obtain pre a b c post where
    g: "\<And>v. g v = pre @ (if js_truthy v then a @ escapeHtml (Some v) @ b else c) @ post"
    unfolding escaped_hole_def by blast
  show ?thesis
    unfolding escaped_hole_def
    by (rule exI [of _ "p @ pre"], rule exI [of _ a], rule exI [of _ b], rule exI [of _ c],
        rule exI [of _ post]) (simp add: g)
qed

lemma hole_post: "escaped_hole g \<Longrightarrow> escaped_hole (\<lambda>v. g v @ q)"
proof -
  assume "escaped_hole g"
  then obtain pre a b c post where
    g: "\<And>v. g v = pre @ (if js_truthy v then a @ escapeHtml (Some v) @ b else c) @ post"
    unfolding escaped_hole_def by blast
  show ?thesis
    unfolding escaped_hole_def
    by (rule exI [of _ pre], rule exI [of _ a], rule exI [of _ b], rule exI [of _ c],
        rule exI [of _ "post @ q"]) (simp add: g)
qed

lemma get_same: "get_prop (JObj ((k, v) # kv)) k = Some v"
  by simp

lemma get_other: "k' \<noteq> k \<Longrightarrow> get_prop (JObj ((k, v) # kv)) k' = get_prop (JObj kv) k'"
  by simp

lemma other_key:
  "Text \<noteq> k \<Longrightarrow> turn_open (JObj ((k, v) # kv)) = turn_open (JObj kv)"
  "DirectAnswer10s \<noteq> k \<Longrightarrow> SpecificExample \<noteq> k \<Longrightarrow> QuantifiedImpact \<noteq> k \<Longrightarrow>
   Tradeoffs \<noteq> k \<Longrightarrow> CrispTakeaway \<noteq> k \<Longrightarrow>
     rubric_items (JObj ((k, v) # kv)) = rubric_items (JObj kv)"
  "FillerCount \<noteq> k \<Longrightarrow> filler_item (JObj ((k, v) # kv)) = filler_item (JObj kv)"
  "LongPauses \<noteq> k \<Longrightarrow> pauses_item (JObj ((k, v) # kv)) = pauses_item (JObj kv)"
  "TrailingSentences \<noteq> k \<Longrightarrow> trailing_item (JObj ((k, v) # kv)) = trailing_item (JObj kv)"
  "PaceWpm \<noteq> k \<Longrightarrow> PaceRating \<noteq> k \<Longrightarrow> PaceFeedback \<noteq> k \<Longrightarrow>
     pace_item (JObj ((k, v) # kv)) = pace_item (JObj kv)"
  "RelevanceToRole \<noteq> k \<Longrightarrow> relevance_item (JObj ((k, v) # kv)) = relevance_item (JObj kv)"
  "QuestionType \<noteq> k \<Longrightarrow>
     question_type_item (JObj ((k, v) # kv)) = question_type_item (JObj kv)"
  "ActionableFeedback \<noteq> k \<Longrightarrow> feedback_item (JObj ((k, v) # kv)) = feedback_item (JObj kv)"
  by (simp_all only: turn_open_def rubric_items_def items_def filler_item_def pauses_item_def
        trailing_item_def pace_item_def pace_label_def relevance_item_def
        question_type_item_def feedback_item_def get_other simp_thms not_False_eq_True)

lemma reaches_intro:
  assumes pace: "\<And>v. pace_item (JObj (kv' v)) = pace_item (JObj kv)"
    and hole: "\<And>pace. escaped_hole (\<lambda>v. turn_body (JObj (kv' v)) pace)"
  shows "reaches_markup_escaped (\<lambda>v. JObj (kv' v))"
proof (cases "pace_item (JObj kv)")
  case (Inl e)
  then have "\<And>v. renderTurnScore (JObj (kv' v)) = Inl TypeError"
    by (cases e) (simp add: renderTurnScore_def pace)
  then show ?thesis by (simp add: reaches_markup_escaped_def)
next
  case (Inr p)
  then have "\<And>v. renderTurnScore (JObj (kv' v)) = Inr (turn_body (JObj (kv' v)) p)"
    by (simp add: renderTurnScore_def pace)
  with hole [of p] show ?thesis
    unfolding reaches_markup_escaped_def by blast
qed

lemma escapeHtml_or:
  "escapeHtml (js_or (Some v) d) = (if js_truthy v then [] @ escapeHtml (Some v) @ [] else escape_text d)"
  by (cases d) (simp_all add: js_or_def escapeHtml_def)

lemma text_reaches: "reaches_markup_escaped (\<lambda>v. JObj ((Text, v) # kv))"
proof (rule reaches_intro [where kv = kv])
  show "pace_item (JObj ((Text, v) # kv)) = pace_item (JObj kv)" for v
    by (simp only: other_key key.distinct simp_thms not_False_eq_True)
  show "escaped_hole (\<lambda>v. turn_body (JObj ((Text, v) # kv)) pace)" for pace
    unfolding turn_body_def
    apply (simp only: other_key key.distinct simp_thms not_False_eq_True)
    apply (rule hole_post)
    apply (simp only: turn_open_def get_same escapeHtml_or)
    apply (intro hole_pre hole_post hole_base)
    done
qed


lemma question_type_reaches: "reaches_markup_escaped (\<lambda>v. JObj ((QuestionType, v) # kv))"
proof (rule reaches_intro [where kv = kv])
  show "pace_item (JObj ((QuestionType, v) # kv)) = pace_item (JObj kv)" for v
    by (simp only: other_key key.distinct simp_thms not_False_eq_True)
  show "escaped_hole (\<lambda>v. turn_body (JObj ((QuestionType, v) # kv)) pace)" for pace
    unfolding turn_body_def
    apply (simp only: other_key key.distinct simp_thms not_False_eq_True)
    apply (intro hole_pre)
    apply (rule hole_post)
    apply (simp only: question_type_item_def get_same escapeHtml_or)
    apply (intro hole_pre hole_post hole_base)
    done
qed

lemma feedback_reaches:
  "reaches_markup_escaped (\<lambda>v. JObj ((ActionableFeedback, v) # kv))"
proof (rule reaches_intro [where kv = kv])
  show "pace_item (JObj ((ActionableFeedback, v) # kv)) = pace_item (JObj kv)" for v
    by (simp only: other_key key.distinct simp_thms not_False_eq_True)
  show "escaped_hole (\<lambda>v. turn_body (JObj ((ActionableFeedback, v) # kv)) pace)" for pace
    unfolding turn_body_def
    apply (simp only: other_key key.distinct simp_thms not_False_eq_True)
    apply (intro hole_pre)
    apply (rule hole_post)
    apply (simp only: feedback_item_def get_same truthy.simps)
    apply (rule hole_base)
    done
qed

lemma noted_item:
  \<open>rubric_item (l, met_of (Some (JObj ((Note, v) # crit))),
                 note_of (Some (JObj ((Note, v) # crit)))) =
     (''<div class="rubric-item">'' @ badge (met_of (Some (JObj crit))) @ '' '' @ l)
       @ (if js_truthy v then '': '' @ escapeHtml (Some v) @ [] else []) @ ''</div>''\<close>
  by (simp add: met_of_def note_of_def)

lemma hole_noted_item:
  "escaped_hole (\<lambda>v. rubric_item (l, met_of (Some (JObj ((Note, v) # crit))),
                                  note_of (Some (JObj ((Note, v) # crit)))))"
  unfolding noted_item by (intro hole_pre hole_post hole_base)

lemmas rubric_unfold =
  rubric_items_def items_def list.map concat.simps get_same get_other key.distinct
  simp_thms not_False_eq_True

lemma hole_rubric_items:
  "escaped_hole (\<lambda>v. rubric_items (JObj ((DirectAnswer10s, JObj ((Note, v) # crit)) # kv)))"
  "escaped_hole (\<lambda>v. rubric_items (JObj ((SpecificExample, JObj ((Note, v) # crit)) # kv)))"
  "escaped_hole (\<lambda>v. rubric_items (JObj ((QuantifiedImpact, JObj ((Note, v) # crit)) # kv)))"
  "escaped_hole (\<lambda>v. rubric_items (JObj ((Tradeoffs, JObj ((Note, v) # crit)) # kv)))"
  "escaped_hole (\<lambda>v. rubric_items (JObj ((CrispTakeaway, JObj ((Note, v) # crit)) # kv)))"
  by (simp_all only: rubric_unfold)
     ((intro hole_pre)?, rule hole_post, rule hole_noted_item)+

lemma criterion_reaches:
  assumes c: "c \<in> {DirectAnswer10s, SpecificExample, QuantifiedImpact, Tradeoffs, CrispTakeaway}"
  shows "reaches_markup_escaped (\<lambda>v. JObj ((c, JObj ((Note, v) # crit)) # kv))"
proof (rule reaches_intro [where kv = kv])
  show "pace_item (JObj ((c, JObj ((Note, v) # crit)) # kv)) = pace_item (JObj kv)" for v
    using c by (auto simp only: other_key key.distinct simp_thms not_False_eq_True)
  show "escaped_hole (\<lambda>v. turn_body (JObj ((c, JObj ((Note, v) # crit)) # kv)) pace)" for pace
    unfolding turn_body_def
    using c
    apply (elim insertE emptyE)
    apply (simp_all only: other_key key.distinct simp_thms not_False_eq_True)
    apply ((intro hole_pre)?, rule hole_post, rule hole_rubric_items)+
    done
qed

lemma relevance_noted:
  \<open>relevance_item (JObj ((RelevanceToRole, JObj ((Note, v) # crit)) # kv)) =
     (if js_truthy v
      then (''<div class="rubric-item">Relevance to role: '' @ badge (get_prop (JObj crit) Met)
            @ '' '') @ escapeHtml (Some v) @ ''</div>''
      else (if non_null (get_prop (JObj crit) Met)
            then ''<div class="rubric-item">Relevance to role: ''
                 @ badge (get_prop (JObj crit) Met) @ ''</div>''
            else []))\<close>
  by (simp add: relevance_item_def)

lemma relevance_reaches:
  "reaches_markup_escaped (\<lambda>v. JObj ((RelevanceToRole, JObj ((Note, v) # crit)) # kv))"
proof (rule reaches_intro [where kv = kv])
  show "pace_item (JObj ((RelevanceToRole, JObj ((Note, v) # crit)) # kv)) = pace_item (JObj kv)"
    for v
    by (simp only: other_key key.distinct simp_thms not_False_eq_True)
  show "escaped_hole (\<lambda>v. turn_body (JObj ((RelevanceToRole, JObj ((Note, v) # crit)) # kv)) pace)"
    for pace
    unfolding turn_body_def
    apply (simp only: other_key key.distinct simp_thms not_False_eq_True)
    apply (intro hole_pre)
    apply (rule hole_post)
    apply (simp only: relevance_noted)
    apply (rule hole_base)
    done
qed

lemma notes_reach:
  "list_all (\<lambda>c. reaches_markup_escaped (\<lambda>v. JObj ((c, JObj ((Note, v) # crit)) # kv)))
     noted_criteria"
  by (simp add: noted_criteria_def criterion_reaches relevance_reaches)

text \<open>The pace feedback is part of the pace line, which is there when the pace is.\<close>

lemma pace_feedback_item:
  \<open>non_null (get_prop (JObj kv) PaceWpm) \<Longrightarrow> pace_label (JObj kv) = Inr l \<Longrightarrow>
   pace_item (JObj ((PaceFeedback, v) # kv)) =
     Inr ((''<div class="rubric-item">Pace: '' @ to_string (get_prop (JObj kv) PaceWpm)
            @ '' WPM ('' @ l @ '')'')
          @ (if js_truthy v then '': '' @ escapeHtml (Some v) @ [] else []) @ ''</div>'')\<close>
  by (simp add: pace_item_def pace_label_def)

lemma pace_feedback_throws:
  "non_null (get_prop (JObj kv) PaceWpm) \<Longrightarrow> pace_label (JObj kv) = Inl e \<Longrightarrow>
   pace_item (JObj ((PaceFeedback, v) # kv)) = Inl TypeError"
  by (cases e) (simp add: pace_item_def pace_label_def)

lemma pace_feedback_reaches:
  assumes wpm: "non_null (get_prop (JObj kv) PaceWpm)"
  shows "reaches_markup_escaped (\<lambda>v. JObj ((PaceFeedback, v) # kv))"
proof (cases "pace_label (JObj kv)")
  case (Inl e)
  then have "\<And>v. renderTurnScore (JObj ((PaceFeedback, v) # kv)) = Inl TypeError"
    by (simp add: renderTurnScore_def pace_feedback_throws [OF wpm])
  then show ?thesis by (simp add: reaches_markup_escaped_def)
next
  case (Inr l)
  let ?pace = \<open>\<lambda>v. (''<div class="rubric-item">Pace: '' @ to_string (get_prop (JObj kv) PaceWpm)
            @ '' WPM ('' @ l @ '')'')
          @ (if js_truthy v then '': '' @ escapeHtml (Some v) @ [] else []) @ ''</div>''\<close>
  have r: "\<And>v. renderTurnScore (JObj ((PaceFeedback, v) # kv)) =
             Inr (turn_body (JObj ((PaceFeedback, v) # kv)) (?pace v))"
    by (simp add: renderTurnScore_def pace_feedback_item [OF wpm Inr])
  have "escaped_hole (\<lambda>v. turn_body (JObj ((PaceFeedback, v) # kv)) (?pace v))"
    unfolding turn_body_def
    apply (simp only: other_key key.distinct simp_thms not_False_eq_True)
    apply (intro hole_pre)
    apply (rule hole_post)
    apply (intro hole_pre hole_post hole_base)
    done
  with r show ?thesis
    unfolding reaches_markup_escaped_def by blast
qed

text \<open>
  The counts, the pace and the pace rating are not free text; they enter the markup as
  they are.
\<close>

lemma counts_enter_markup_raw:
  \<open>filler_item (JObj [(FillerCount, JStr ''<b>'')]) =
     ''<div class="rubric-item">Filler count: <b></div>'' \<and>
   pace_item (JObj [(PaceWpm, JNum 140), (PaceRating, JStr ''<i>too_fast'')]) =
     Inr ''<div class="rubric-item">Pace: 140 WPM (<i>too fast)</div>''\<close>
  by code_simp

lemma render_throws:
  "(renderTurnScore t = Inl TypeError) =
     (t = JNull \<or>
      (non_null (get_prop t PaceWpm) \<and> truthy (get_prop t PaceRating) \<and>
       (\<forall>r. get_prop t PaceRating \<noteq> Some (JStr r))))"
  by (auto simp: renderTurnScore_def pace_item_def pace_label_def
        split: option.splits json.splits sum.splits if_splits)

section \<open>The claims\<close>

text \<open>
  Claim C1, as amended. When the analysis of the current question completes, the
  controller is in \<open>Feedback\<close> and the index is unchanged, on the success path
  and on the failure path. A truthy result is stored at the current question index.
  On the failure path the handler receives \<^verbatim>\<open>null\<close> and stores nothing: the
  results are left as they were, and so they are for any falsy payload.
\<close>

theorem analyze_completion_effect:
  "mode (analyzeCompleted r s) = Feedback \<and>
   currentQuestionIndex (analyzeCompleted r s) = currentQuestionIndex s \<and>
   (js_truthy d \<longrightarrow>
      arr_get (sessionResults (analyzeCompleted (AnalyzeData d) s)) (currentQuestionIndex s)
        = Some d) \<and>
   (\<not> js_truthy d \<longrightarrow>
      sessionResults (analyzeCompleted (AnalyzeData d) s) = sessionResults s) \<and>
   sessionResults (analyzeCompleted (AnalyzeFailed msg) s) = sessionResults s"
  by (simp add: completed_fields arr_get_set)

theorem analyze_completion_effect_witness:
  "js_truthy (scored ''Second take'') \<and>
   arr_get (sessionResults (analyzeCompleted (AnalyzeData (scored ''Second take'')) retry_in_flight))
     (currentQuestionIndex retry_in_flight) = Some (scored ''Second take'') \<and>
   \<not> js_truthy JNull \<and>
   sessionResults (analyzeCompleted (AnalyzeData JNull) retry_in_flight)
     = sessionResults retry_in_flight"
  using analyze_completion_effect [where s = retry_in_flight and d = "scored ''Second take''"]
    analyze_completion_effect [where s = retry_in_flight and d = JNull]
  by (simp add: scored_def)

text \<open>
  The claim as stated fails on the failure path. The first question was answered and
  scored, the user tried again, and the analysis of the retry fails while the session
  is in \<open>Analyzing\<close>: the slot of the question still holds the result of the first
  take, not a result of the call that completed.
\<close>

theorem failed_retry_keeps_earlier_result:
  "mode retry_in_flight = Analyzing \<and>
   mode (analyzeCompleted (AnalyzeFailed ''Failed to fetch'') retry_in_flight) = Feedback \<and>
   arr_get (sessionResults (analyzeCompleted (AnalyzeFailed ''Failed to fetch'') retry_in_flight))
     (currentQuestionIndex retry_in_flight) = Some (scored ''First take'')"
  by (simp add: retry_in_flight_def completed_fields onstop_fields recording_fields
        retrying_fields arr_get_def)

text \<open>
  Claim C2, as amended. "Try again" leaves the index, the questions and the stored
  results as they are and returns to \<open>Active\<close>. When the analysis of the retried
  answer completes with a truthy result, the result overwrites the slot of the
  question and the array keeps its length. In a session of three questions in which
  every analysis gives a truthy result, the second question is tried again once and
  "next" is taken to the end, exactly three results are stored and the second is the
  one of the retry.
\<close>

theorem try_again_overwrites_on_success:
  "currentQuestionIndex (onTryAgain s) = currentQuestionIndex s \<and>
   mode (onTryAgain s) = Active \<and>
   questions (onTryAgain s) = questions s \<and>
   sessionResults (onTryAgain s) = sessionResults s \<and>
   (js_truthy d \<and> currentQuestionIndex s < length (sessionResults s) \<longrightarrow>
      sessionResults (attempt (Suc n) (AnalyzeData d) (onTryAgain s))
        = (sessionResults s)[currentQuestionIndex s := Some d] \<and>
      length (sessionResults (attempt (Suc n) (AnalyzeData d) (onTryAgain s)))
        = length (sessionResults s)) \<and>
   (length qs = 3 \<and> js_truthy a \<and> js_truthy b \<and> js_truthy b' \<and> js_truthy c \<longrightarrow>
      sessionResults
        (retry_scenario qs (AnalyzeData a) (AnalyzeData b) (AnalyzeData b') (AnalyzeData c))
        = [Some a, Some b', Some c] \<and>
      length (filter_Boolean (sessionResults
        (retry_scenario qs (AnalyzeData a) (AnalyzeData b) (AnalyzeData b') (AnalyzeData c))))
        = 3 \<and>
      mode (retry_scenario qs (AnalyzeData a) (AnalyzeData b) (AnalyzeData b') (AnalyzeData c))
        = Complete)"
proof -
  have scenario:
    "sessionResults
       (retry_scenario qs (AnalyzeData a) (AnalyzeData b) (AnalyzeData b') (AnalyzeData c))
       = [Some a, Some b', Some c] \<and>
     mode (retry_scenario qs (AnalyzeData a) (AnalyzeData b) (AnalyzeData b') (AnalyzeData c))
       = Complete"
    if len: "length qs = 3" and t: "js_truthy a" "js_truthy b" "js_truthy b'" "js_truthy c"
  proof -
    have ne: "questions (initial\<lparr>questions := qs\<rparr>) \<noteq> []"
      using len by auto
    show ?thesis
      unfolding retry_scenario_def One_nat_def
      using len t ne
      by (simp add: attempt_fields next_fields retry_fields start_fields arr_set_def)
  qed
  have counted: "length (filter_Boolean [Some a, Some b', Some c]) = 3"
    if "js_truthy a" "js_truthy b'" "js_truthy c"
    using that by (simp add: filter_Boolean_def)
  show ?thesis
    using scenario counted
    by (simp add: retry_fields attempt_fields arr_set_inside)
qed

theorem try_again_overwrites_on_success_witness:
  "js_truthy (scored ''Second take'') \<and>
   currentQuestionIndex first_answered < length (sessionResults first_answered) \<and>
   sessionResults (attempt (Suc 0) (AnalyzeData (scored ''Second take'')) (onTryAgain first_answered))
     = [Some (scored ''Second take'')] \<and>
   length three_questions = 3 \<and>
   sessionResults
     (retry_scenario three_questions (AnalyzeData (scored ''First answer''))
        (AnalyzeData (scored ''Second answer'')) (AnalyzeData (scored ''Second take''))
        (AnalyzeData (scored ''Third answer'')))
     = [Some (scored ''First answer''), Some (scored ''Second take''),
        Some (scored ''Third answer'')]"
  using
    try_again_overwrites_on_success
      [where s = first_answered
         and d = "scored ''Second take''" and n = 0 and qs = three_questions
         and a = "scored ''First answer''" and b = "scored ''Second answer''"
         and b' = "scored ''Second take''" and c = "scored ''Third answer''"]
  by (simp add: first_answered_fields three_questions_def js_truthy_scored)

text \<open>
  The claim as stated fails when the analysis of the retry fails: the retry completes,
  and the slot of the second question still holds the result from before the retry.
\<close>

theorem failed_retry_scenario_keeps_first_result:
  "sessionResults
     (retry_scenario three_questions (AnalyzeData (scored ''First answer''))
        (AnalyzeData (scored ''Second answer'')) (AnalyzeFailed ''Failed to fetch'')
        (AnalyzeData (scored ''Third answer'')))
     = [Some (scored ''First answer''), Some (scored ''Second answer''),
        Some (scored ''Third answer'')]"
  unfolding retry_scenario_def One_nat_def
  by (simp add: attempt_fields next_fields retry_fields start_fields arr_set_def
        three_questions_def)
     (simp add: scored_def)

text \<open>
  Claim C3, as amended. "Next" advances the index by exactly one and leaves the
  questions and the stored results as they are. When the new index has reached the
  length of the question set (the index counts from 0, so this is one past the last
  question) the controller is in \<open>Complete\<close>; otherwise it is in \<open>Active\<close> and
  the question shown is the one at the new index.
\<close>

theorem next_question_effect:
  "currentQuestionIndex (onNextQuestion s) = currentQuestionIndex s + 1 \<and>
   questions (onNextQuestion s) = questions s \<and>
   sessionResults (onNextQuestion s) = sessionResults s \<and>
   mode (onNextQuestion s) =
     (if length (questions s) \<le> currentQuestionIndex s + 1 then Complete else Active) \<and>
   currentQuestionEl (onNextQuestion s) =
     (if length (questions s) \<le> currentQuestionIndex s + 1 then currentQuestionEl s
      else Some (questions s ! (currentQuestionIndex s + 1)))"
  by (simp add: next_fields) (simp add: handler_defs Let_def nth_opt_def)

text \<open>
  The claim as stated compares with "exceeds". A session of one question is in
  \<open>Feedback\<close> on that question; after "next" the new index is 1, which does not
  exceed the length 1, and the controller is in \<open>Complete\<close>, not in \<open>Active\<close>.
\<close>

theorem next_from_only_question_completes:
  "mode only_answered = Feedback \<and>
   length (questions only_answered) = 1 \<and>
   currentQuestionIndex (onNextQuestion only_answered) = 1 \<and>
   mode (onNextQuestion only_answered) = Complete"
  by (simp add: next_fields only_answered_fields)

text \<open>
  Claim C4, on the code. The summary counts the stored results and skips the slots
  without one, but it pairs each listed result with the question at the result's
  position among the stored results, not with the question it was stored for. Here the
  first question got no result and the second one did: the summary lists the result
  of the second question under the text of the first.
\<close>

theorem summary_pairs_by_position:
  \<open>sessionResults second_answered = [None, Some (scored ''Good estimate'')] \<and>
   questions second_answered
     = [JStr ''Tell me about a conflict'', JStr ''Estimate daily rideshare trips''] \<and>
   mode (onNextQuestion second_answered) = Complete \<and>
   sessionSummaryEl (onNextQuestion second_answered) =
     ''<h2>Session complete</h2><p>You answered 1 question(s).</p>''
     @ ''<div class="turn"><strong>Tell me about a conflict</strong><br>''
     @ ''<span class="muted">Good estimate</span></div>''\<close>
proof -
  have le: "length (questions second_answered) \<le> currentQuestionIndex second_answered + 1"
    by (simp add: second_answered_fields two_questions_def)
  show ?thesis
    unfolding summary_after_last [OF le] next_fields second_answered_fields
    by (simp add: filter_Boolean_def scored_def two_questions_def enumerate_eq_zip
        summary_entry_def overall_summary_def nth_opt_def js_or_def escapeHtml_def
        escape_char_def nat_to_string_digit digit_char_def)
qed

text \<open>
  Claim C5, as amended. When the capture stops with zero bytes, no analysis is
  requested, the controller goes to \<open>Feedback\<close>, and the index and the stored
  results are unchanged: no empty result is stored. The feedback panel is built from
  whatever the slot of the current question holds: it shows
  \<^verbatim>\<open>No feedback available.\<close> when the slot is empty, as on a first attempt, and
  when building the markup from the stored result throws, as it does for a list of
  turns that holds \<^verbatim>\<open>null\<close>, the panel keeps what it showed before. A capture
  with audio does request the analysis.
\<close>

theorem empty_capture_effect:
  "snd (recorder_onstop 0 s) = None \<and>
   snd (recorder_onstop (Suc n) s) \<noteq> None \<and>
   mode (fst (recorder_onstop 0 s)) = Feedback \<and>
   currentQuestionIndex (fst (recorder_onstop 0 s)) = currentQuestionIndex s \<and>
   sessionResults (fst (recorder_onstop 0 s)) = sessionResults s \<and>
   guidedFeedbackEl (fst (recorder_onstop 0 s)) =
     (case render_feedback (arr_get (sessionResults s) (currentQuestionIndex s)) of
        Inr v \<Rightarrow> v
      | Inl e \<Rightarrow> guidedFeedbackEl s) \<and>
   render_feedback None = Inr NoFeedbackAvailable \<and>
   render_feedback (Some malformed_result) = Inl TypeError"
  by (simp add: onstop_fields)
     (simp add: render_feedback_def scored_turns_def malformed_result_def feedback_markup_def
        over_array_def renderTurnScore_def)

text \<open>
  The claim as stated fails on a retry. The first question was answered and scored,
  the user tried again and stopped the recorder with no audio: no analysis is
  requested and the controller is in \<open>Feedback\<close>, but the feedback shown is the one
  of the first take, not that of an empty result.
\<close>

theorem empty_retry_shows_earlier_feedback:
  "mode retry_stopped = Analyzing \<and>
   snd (recorder_onstop 0 retry_stopped) = None \<and>
   mode (fst (recorder_onstop 0 retry_stopped)) = Feedback \<and>
   guidedFeedbackEl (fst (recorder_onstop 0 retry_stopped)) = FeedbackFor (scored ''First take'')"
  by (simp add: retry_stopped_def onstop_fields recording_fields retrying_fields arr_get_def
        scored_renders)

text \<open>
  Claim C6, on the code. \<^verbatim>\<open>loadQuestions\<close> never reads \<^verbatim>\<open>res.ok\<close>. The
  collaborator answers with an error response whose body is a JSON object without
  \<^verbatim>\<open>questions\<close>: the question set held before is replaced by the empty list and
  the status line is cleared, so no error is shown. A rejected request does leave the
  question set as it was.
\<close>

theorem error_response_empties_questions:
  "questions (initial\<lparr>questions := two_questions\<rparr>) = two_questions \<and>
   questions (loadQuestions ''Senior data engineer'' (Responded False (Body None))
                (initial\<lparr>questions := two_questions\<rparr>)) = [] \<and>
   statusEl (loadQuestions ''Senior data engineer'' (Responded False (Body None))
               (initial\<lparr>questions := two_questions\<rparr>)) = ([], []) \<and>
   questions (loadQuestions jd (Rejected msg) s) = questions s \<and>
   statusEl (loadQuestions jd (Rejected msg) s) = (''Error: '' @ msg, ''error'')"
  by (simp add: loadQuestions_def setStatus_def clearStatus_def)

text \<open>
  Claim C7, as amended. The page keeps no record of which analyze call a reply
  belongs to. Whichever of the calls in flight completes, a truthy result is stored at
  the current question index and the controller goes to \<open>Feedback\<close>; so it is
  when "try again" was issued while the call was in flight, and what the completion
  does never depends on the mode the session was in. A reply to a stale attempt is
  neither detected nor discarded.
\<close>

theorem completion_after_try_again_is_stored:
  "(i < length (calls p) \<and> js_truthy d \<longrightarrow>
      sessionResults (session (call_completes i (AnalyzeData d) p))
        = arr_set (sessionResults (session p)) (currentQuestionIndex (session p)) d \<and>
      mode (session (call_completes i (AnalyzeData d) p)) = Feedback \<and>
      sessionResults (session (call_completes i (AnalyzeData d) (user onTryAgain p)))
        = arr_set (sessionResults (session p)) (currentQuestionIndex (session p)) d \<and>
      mode (session (call_completes i (AnalyzeData d) (user onTryAgain p))) = Feedback) \<and>
   analyzeCompleted r (s\<lparr>mode := m\<rparr>) = analyzeCompleted r s"
  by (simp add: page_fields completed_fields retry_fields mode_forgotten)

theorem completion_after_try_again_is_stored_witness:
  "0 < length (calls restarted) \<and>
   js_truthy (scored ''Late reply'') \<and>
   sessionResults (session (call_completes 0 (AnalyzeData (scored ''Late reply'')) restarted))
     = [Some (scored ''Late reply'')] \<and>
   mode (session (call_completes 0 (AnalyzeData (scored ''Late reply'')) restarted)) = Feedback \<and>
   sessionResults
     (session (call_completes 0 (AnalyzeData (scored ''Late reply''))
                 (user onTryAgain restarted)))
     = [Some (scored ''Late reply'')]"
  using completion_after_try_again_is_stored
          [where i = 0 and p = restarted and d = "scored ''Late reply''"]
  by (simp add: restarted_fields js_truthy_scored arr_set_def)

text \<open>
  The claim as stated fails: nothing detects a stale reply. The first question is
  recorded and its analysis is posted; before the reply arrives the user starts the
  interview again, records the first question again, gets the reply of this second
  call, which is stored, and tries again. The one call still in flight is the first
  one, started before the call whose result the slot holds. Its reply arrives now, and
  it is stored over that result.
\<close>

theorem late_reply_overwrites_slot:
  "length (calls restarted) = 1 \<and>
   mode (session restarted) = Active \<and>
   currentQuestionIndex (session restarted) = 0 \<and>
   sessionResults (session restarted) = [Some (scored ''First take'')] \<and>
   sessionResults (session (call_completes 0 (AnalyzeData (scored ''Late reply'')) restarted))
     = [Some (scored ''Late reply'')]"
  by (simp add: restarted_fields page_fields completed_fields arr_set_def js_truthy_scored)

text \<open>
  Claim C8, on the code. The five criteria of \<^verbatim>\<open>items\<close> go through
  \<^verbatim>\<open>met\<close>, which turns a verdict that is missing or not a boolean into
  \<^verbatim>\<open>null\<close>; the trailing-sentences and relevance lines pass the raw value to
  \<^verbatim>\<open>badge\<close>. This turn has no trailing-sentences field and a relevance criterion
  with a note and no verdict: both lines show the badge \<^verbatim>\<open>N\<close>, while the
  criteria of \<^verbatim>\<open>items\<close> without a verdict show the dash.
\<close>

theorem verdict_missing_renders_N:
  \<open>renderTurnScore turn_without_verdicts = Inr (
     ''<div class="turn"><div class="turn-text">I led the migration</div><div class="rubric">''
   @ ''<div class="rubric-item"><span class="badge yes">Y</span> Direct answer (10s): yes</div>''
   @ ''<div class="rubric-item"><span class="badge no">N</span> Specific example</div>''
   @ ''<div class="rubric-item"><span class="badge">'' @ em_dash @ ''</span> Quantified impact</div>''
   @ ''<div class="rubric-item"><span class="badge">'' @ em_dash @ ''</span> Tradeoffs</div>''
   @ ''<div class="rubric-item"><span class="badge">'' @ em_dash @ ''</span> Crisp takeaway</div>''
   @ ''<div class="rubric-item">Filler count: 2</div>''
   @ ''<div class="rubric-item">Long pauses: 0</div>''
   @ ''<div class="rubric-item">Trailing/ramble: <span class="badge no">N</span></div>''
   @ ''<div class="rubric-item">Relevance to role: <span class="badge no">N</span> fits the role</div>''
   @ ''<div class="rubric-item">Question type: Behavioral</div>''
   @ ''</div></div>'')\<close>
  by code_simp

text \<open>
  Claim C9. Starting with an empty question set changes nothing, so a session in
  \<open>Setup\<close> stays there. Starting with any other question set puts the session in
  \<open>Active\<close> with the index 0 and no stored results, on the same questions.
\<close>

theorem start_rejects_empty_and_resets:
  "(questions s = [] \<longrightarrow> startGuidedInterview s = s) \<and>
   (questions s \<noteq> [] \<longrightarrow>
      mode (startGuidedInterview s) = Active \<and>
      currentQuestionIndex (startGuidedInterview s) = 0 \<and>
      sessionResults (startGuidedInterview s) = [] \<and>
      questions (startGuidedInterview s) = questions s)"
  by (simp add: start_fields) (simp add: startGuidedInterview_def)

theorem start_rejects_empty_and_resets_witness:
  "questions initial = [] \<and>
   mode initial = Setup \<and>
   mode (startGuidedInterview initial) = Setup \<and>
   questions second_answered \<noteq> [] \<and>
   currentQuestionIndex second_answered = 1 \<and>
   sessionResults second_answered \<noteq> [] \<and>
   mode (startGuidedInterview second_answered) = Active \<and>
   currentQuestionIndex (startGuidedInterview second_answered) = 0 \<and>
   sessionResults (startGuidedInterview second_answered) = []"
  using start_rejects_empty_and_resets [of initial]
    start_rejects_empty_and_resets [of second_answered]
  by (simp add: initial_def second_answered_fields two_questions_def)

text \<open>
  Claim C10, for the values of the model. \<^verbatim>\<open>escapeHtml\<close> gives the empty string
  for \<^verbatim>\<open>undefined\<close>, \<^verbatim>\<open>null\<close> and the empty string. For every input its
  result is made of entities and of characters that are not metacharacters: it has no
  \<^verbatim>\<open><\<close> and no \<^verbatim>\<open>>\<close>, every \<^verbatim>\<open>&\<close> in it opens an entity, and reading the
  entities back gives the input's text. In \<^verbatim>\<open>renderTurnScore\<close> the turn text, the
  note of each criterion, the question type and the actionable feedback reach the
  markup escaped, whatever the other fields of the turn hold: the markup is a fixed
  text around \<^verbatim>\<open>escapeHtml\<close> of the field. So does the pace feedback when the turn
  has a pace, which is when the pace line is rendered. \<^verbatim>\<open>renderTurnScore\<close> returns
  no markup exactly for a turn that is \<^verbatim>\<open>null\<close> and for a turn with a pace whose
  rating is truthy and not a string.
\<close>

theorem escapeHtml_escapes_turn_fields:
  "escapeHtml None = [] \<and>
   escapeHtml (Some JNull) = [] \<and>
   escapeHtml (Some (JStr [])) = [] \<and>
   escaped (escapeHtml x) \<and>
   CHR ''<'' \<notin> set (escapeHtml x) \<and>
   CHR ''>'' \<notin> set (escapeHtml x) \<and>
   (truthy x \<longrightarrow> unescape_text (escapeHtml x) = to_string x) \<and>
   reaches_markup_escaped (\<lambda>v. JObj ((Text, v) # kv)) \<and>
   list_all (\<lambda>c. reaches_markup_escaped (\<lambda>v. JObj ((c, JObj ((Note, v) # crit)) # kv)))
     noted_criteria \<and>
   reaches_markup_escaped (\<lambda>v. JObj ((QuestionType, v) # kv)) \<and>
   reaches_markup_escaped (\<lambda>v. JObj ((ActionableFeedback, v) # kv)) \<and>
   (non_null (get_prop (JObj kv) PaceWpm) \<longrightarrow>
      reaches_markup_escaped (\<lambda>v. JObj ((PaceFeedback, v) # kv))) \<and>
   (renderTurnScore t = Inl TypeError) =
     (t = JNull \<or>
      (non_null (get_prop t PaceWpm) \<and> truthy (get_prop t PaceRating) \<and>
       (\<forall>r. get_prop t PaceRating \<noteq> Some (JStr r))))"
proof -
  have e: "escaped (escapeHtml x)"
    by (simp add: escapeHtml_def escaped_Nil escaped_escape_text)
  have u: "unescape_text (escapeHtml x) = to_string x" if "truthy x"
    using that by (simp add: escapeHtml_def unescape_escape)
  have empty: "escapeHtml None = [] \<and> escapeHtml (Some JNull) = [] \<and> escapeHtml (Some (JStr [])) = []"
    by (simp add: escapeHtml_def)
  show ?thesis
    using e escaped_no_tags [OF e] u empty text_reaches [of kv] notes_reach [of crit kv]
      question_type_reaches [of kv] feedback_reaches [of kv] pace_feedback_reaches [of kv]
      render_throws [of t]
    by blast
qed

theorem escapeHtml_escapes_turn_fields_witness:
  \<open>truthy (Some (JStr ''a < b & c'')) \<and>
   escapeHtml (Some (JStr ''a < b & c'')) = ''a &lt; b &amp; c'' \<and>
   unescape_text ''a &lt; b &amp; c'' = ''a < b & c'' \<and>
   renderTurnScore turn_with_markup = Inr (
     ''<div class="turn"><div class="turn-text">&lt;b&gt;bold&lt;/b&gt; &amp; more</div>''
   @ ''<div class="rubric">''
   @ ''<div class="rubric-item"><span class="badge yes">Y</span> Direct answer (10s): a &lt; b</div>''
   @ ''<div class="rubric-item"><span class="badge">'' @ em_dash @ ''</span> Specific example</div>''
   @ ''<div class="rubric-item"><span class="badge">'' @ em_dash @ ''</span> Quantified impact</div>''
   @ ''<div class="rubric-item"><span class="badge">'' @ em_dash @ ''</span> Tradeoffs</div>''
   @ ''<div class="rubric-item"><span class="badge">'' @ em_dash @ ''</span> Crisp takeaway</div>''
   @ ''<div class="rubric-item">Filler count: 2</div>''
   @ ''<div class="rubric-item">Long pauses: '' @ em_dash @ ''</div>''
   @ ''<div class="rubric-item">Trailing/ramble: <span class="badge no">N</span></div>''
   @ ''<div class="rubric-item">Pace: 140 WPM (too fast): slow &lt;down&gt;</div>''
   @ ''<div class="rubric-item">Question type: &lt;i&gt;</div>''
   @ ''<div class="rubric-item" style="margin-top:0.5rem"><strong>Feedback:</strong> ''
   @ ''use &gt; less &amp; more</div>''
   @ ''</div></div>'') \<and>
   renderTurnScore (JObj [(PaceWpm, JNum 140), (PaceRating, JNum 3)]) = Inl TypeError \<and>
   non_null (get_prop (JObj [(PaceWpm, JNum 140)]) PaceWpm) \<and>
   reaches_markup_escaped (\<lambda>v. JObj [(PaceFeedback, v), (PaceWpm, JNum 140)])\<close>
proof -
  have e: "escapeHtml (Some (JStr ''a < b & c'')) = ''a &lt; b &amp; c''"
    by code_simp
  have r: \<open>renderTurnScore turn_with_markup = Inr (
     ''<div class="turn"><div class="turn-text">&lt;b&gt;bold&lt;/b&gt; &amp; more</div>''
   @ ''<div class="rubric">''
   @ ''<div class="rubric-item"><span class="badge yes">Y</span> Direct answer (10s): a &lt; b</div>''
   @ ''<div class="rubric-item"><span class="badge">'' @ em_dash @ ''</span> Specific example</div>''
   @ ''<div class="rubric-item"><span class="badge">'' @ em_dash @ ''</span> Quantified impact</div>''
   @ ''<div class="rubric-item"><span class="badge">'' @ em_dash @ ''</span> Tradeoffs</div>''
   @ ''<div class="rubric-item"><span class="badge">'' @ em_dash @ ''</span> Crisp takeaway</div>''
   @ ''<div class="rubric-item">Filler count: 2</div>''
   @ ''<div class="rubric-item">Long pauses: '' @ em_dash @ ''</div>''
   @ ''<div class="rubric-item">Trailing/ramble: <span class="badge no">N</span></div>''
   @ ''<div class="rubric-item">Pace: 140 WPM (too fast): slow &lt;down&gt;</div>''
   @ ''<div class="rubric-item">Question type: &lt;i&gt;</div>''
   @ ''<div class="rubric-item" style="margin-top:0.5rem"><strong>Feedback:</strong> ''
   @ ''use &gt; less &amp; more</div>''
   @ ''</div></div>'')\<close>
    by code_simp
  note w = escapeHtml_escapes_turn_fields
             [where x = "Some (JStr ''a < b & c'')"
                and t = "JObj [(PaceWpm, JNum 140), (PaceRating, JNum 3)]"
                and kv = "[(PaceWpm, JNum 140)]"]
  have t: "truthy (Some (JStr ''a < b & c''))"
    by simp
  from w t have "unescape_text (escapeHtml (Some (JStr ''a < b & c''))) = ''a < b & c''"
    by simp
  then have u: "unescape_text ''a &lt; b &amp; c'' = ''a < b & c''"
    by (simp only: e)
  have "non_null (get_prop (JObj [(PaceWpm, JNum 140), (PaceRating, JNum 3)]) PaceWpm) \<and>
        truthy (get_prop (JObj [(PaceWpm, JNum 140), (PaceRating, JNum 3)]) PaceRating) \<and>
        (\<forall>r. get_prop (JObj [(PaceWpm, JNum 140), (PaceRating, JNum 3)]) PaceRating
               \<noteq> Some (JStr r))"
    by (simp add: non_null_def)
  with w have x: "renderTurnScore (JObj [(PaceWpm, JNum 140), (PaceRating, JNum 3)]) = Inl TypeError"
    by blast
  have n: "non_null (get_prop (JObj [(PaceWpm, JNum 140)]) PaceWpm)"
    by (simp add: non_null_def)
  with w have p: "reaches_markup_escaped (\<lambda>v. JObj [(PaceFeedback, v), (PaceWpm, JNum 140)])"
    by blast
  from t e u r x n p show ?thesis
    by blast
qed

end
